theory Spec2Isabelle
  imports Main "HOL-Library.Code_Target_Numeral"
begin

section \<open>The x402 protocol envelope (x402-protocol.ts)\<close>

text \<open>
  JavaScript strings are modelled as \<open>string\<close>, one \<open>char\<close> per code unit, so the
  model covers the strings whose code units are below 256 (ASCII and Latin-1). Addresses,
  amounts, hashes and signatures of every supported chain are ASCII.
  JavaScript numbers that the code only stores are modelled as \<open>int\<close>; an optional
  field \<open>f?: T\<close> is a \<open>T option\<close>, with \<open>None\<close> for \<open>undefined\<close>.
\<close>

datatype X402Network =
    base_mainnet
  | base_sepolia
  | solana_mainnet
  | solana_devnet
  | polygon
  | bsc
  | sei
  | peaq

datatype X402Version = V1_0

datatype X402Scheme = scheme_exact | scheme_max

datatype X402Currency = USDC | SOL | ETH | BNB | MATIC | SEI | PEAQ

text \<open>The object type \<open>{ address: string }\<close> of \<open>price.asset\<close> and of \<open>recipient\<close>.\<close>

record X402Address =
  address :: string

record X402Price =
  amount :: string
  currency :: X402Currency
  asset :: "X402Address option"

record X402Resource =
  uri :: string
  description :: "string option"

record X402PaymentSpec =
  version :: X402Version
  scheme :: X402Scheme
  network :: X402Network
  price :: X402Price
  recipient :: X402Address
  resource :: X402Resource
  metadata :: "(string \<times> string) list option"

text \<open>
  The fields of a payment proof carry the prefix \<open>p_\<close>: \<open>network\<close> and \<open>amount\<close>
  are already fields of the specification, and \<open>from\<close> is a keyword.
\<close>

record X402PaymentProof =
  p_txHash :: string
  p_network :: X402Network
  p_from :: string
  p_to :: string
  p_amount :: string
  p_timestamp :: int
  p_blockNumber :: "int option"


section \<open>String primitives of the runtime\<close>

text \<open>
  \<open>String.prototype.toLowerCase\<close> on code units below 256: the upper-case letters are
  \<open>A\<close> to \<open>Z\<close> (65 to 90) and the Latin-1 capitals 192 to 222 without the
  multiplication sign 215; each maps to the code unit 32 above it, every other code unit
  is kept.
\<close>

definition isUpperCase :: "char \<Rightarrow> bool" where
  "isUpperCase c =
     (let n = (of_char c :: nat)
      in (65 \<le> n \<and> n \<le> 90) \<or> (192 \<le> n \<and> n \<le> 222 \<and> n \<noteq> 215))"

definition toLowerCaseChar :: "char \<Rightarrow> char" where
  "toLowerCaseChar c = (if isUpperCase c then char_of ((of_char c :: nat) + 32) else c)"

definition toLowerCase :: "string \<Rightarrow> string" where
  "toLowerCase s = map toLowerCaseChar s"

text \<open>The truth value of a string, as \<open>!!s\<close> computes it: only the empty string is falsy.\<close>

definition truthy :: "string \<Rightarrow> bool" where
  "truthy s = (s \<noteq> [])"

text \<open>
  Two strings that differ at most in letter case, stated without \<open>toLowerCase\<close>:
  they have the same length and, position by position, the same code unit or the two
  cases of one letter.
\<close>

definition same_letter :: "char \<Rightarrow> char \<Rightarrow> bool" where
  "same_letter c d =
     (c = d
      \<or> (isUpperCase c \<and> (of_char d :: nat) = of_char c + 32)
      \<or> (isUpperCase d \<and> (of_char c :: nat) = of_char d + 32))"

definition eq_ignore_case :: "string \<Rightarrow> string \<Rightarrow> bool" where
  "eq_ignore_case s t = list_all2 same_letter s t"


section \<open>EVM payments (evm-payment.ts)\<close>

text \<open>
  \<open>EVMNetwork\<close> is \<open>Extract<X402Network, ...>\<close>: the six EVM members of the
  network enumeration. The narrowing exists for the type checker only, so the model keeps
  the one type \<open>X402Network\<close> and names the subset. \<open>EVMPaymentProof\<close> also makes
  \<open>blockNumber\<close> a required field; the model keeps the optional field of the base
  record, which no modelled function reads.
\<close>

definition isEVMNetwork :: "X402Network \<Rightarrow> bool" where
  "isEVMNetwork n = (n \<in> {base_mainnet, base_sepolia, polygon, bsc, sei, peaq})"

record EVMPaymentProof = X402PaymentProof +
  transactionIndex :: "int option"
  gasUsed :: "string option"
  effectiveGasPrice :: "string option"

text \<open>
  \<open>verifyEVMPayment\<close> is \<open>async\<close> and wraps its body in \<open>try\<close>/\<open>catch\<close>. On a proof
  and a specification of the declared types no operand of the returned conjunction can
  throw, so the promise always resolves to the value of that conjunction; \<open>rpcUrl\<close> is
  not read.
\<close>

definition verifyEVMPayment :: "EVMPaymentProof \<Rightarrow> X402PaymentSpec \<Rightarrow> string \<Rightarrow> bool" where
  "verifyEVMPayment proof spec rpcUrl =
     (toLowerCase (p_to proof) = toLowerCase (address (recipient spec))
      \<and> p_amount proof = amount (price spec)
      \<and> p_network proof = network spec
      \<and> truthy (p_txHash proof))"


section \<open>Solana payments (solana-payment.ts)\<close>

definition isSolanaNetwork :: "X402Network \<Rightarrow> bool" where
  "isSolanaNetwork n = (n \<in> {solana_mainnet, solana_devnet})"

datatype ConfirmationStatus = processed | confirmed | finalized

record SolanaPaymentProof = X402PaymentProof +
  slot :: int
  signature :: string
  confirmationStatus :: ConfirmationStatus
  fee :: "int option"

definition verifySolanaPayment :: "SolanaPaymentProof \<Rightarrow> X402PaymentSpec \<Rightarrow> string \<Rightarrow> bool" where
  "verifySolanaPayment proof spec rpcUrl =
     (toLowerCase (p_to proof) = toLowerCase (address (recipient spec))
      \<and> p_amount proof = amount (price spec)
      \<and> p_network proof = network spec
      \<and> truthy (signature proof)
      \<and> confirmationStatus proof = finalized)"


section \<open>Integer and byte primitives of the runtime\<close>

text \<open>
  \<open>BigInt(s)\<close> on a string follows the StringToBigInt grammar of ECMAScript: white space
  is trimmed on both sides (below 256 the white space and line terminator code units are
  9 to 13, 32 and 160); the empty string is \<open>0\<close>; otherwise the text is a run of
  decimal digits with an optional sign, or an unsigned binary, octal or hexadecimal
  literal with its \<open>0b\<close>, \<open>0o\<close> or \<open>0x\<close> prefix. Anything else throws a
  \<open>SyntaxError\<close>, the only exception the modelled functions can raise.
\<close>

datatype error = SyntaxError

definition isStrWhiteSpaceChar :: "char \<Rightarrow> bool" where
  "isStrWhiteSpaceChar c = ((of_char c :: nat) \<in> {9, 10, 11, 12, 13, 32, 160})"

definition trimString :: "string \<Rightarrow> string" where
  "trimString s = rev (dropWhile isStrWhiteSpaceChar (rev (dropWhile isStrWhiteSpaceChar s)))"

definition digitValue :: "char \<Rightarrow> nat option" where
  "digitValue c =
     (let n = (of_char c :: nat)
      in if 48 \<le> n \<and> n \<le> 57 then Some (n - 48)
         else if 97 \<le> n \<and> n \<le> 122 then Some (n - 87)
         else if 65 \<le> n \<and> n \<le> 90 then Some (n - 55)
         else None)"

fun parseDigitsFrom :: "nat \<Rightarrow> nat \<Rightarrow> string \<Rightarrow> nat option" where
  "parseDigitsFrom base acc [] = Some acc"
| "parseDigitsFrom base acc (c # cs) =
     (case digitValue c of
        None \<Rightarrow> None
      | Some d \<Rightarrow> if d < base then parseDigitsFrom base (acc * base + d) cs else None)"

definition parseDigits :: "nat \<Rightarrow> string \<Rightarrow> nat option" where
  "parseDigits base s = (if s = [] then None else parseDigitsFrom base 0 s)"

definition stringToBigInt :: "string \<Rightarrow> int option" where
  "stringToBigInt s =
     (let t = trimString s
      in if t = [] then Some 0
         else if take 2 t = ''0x'' \<or> take 2 t = ''0X'' then map_option int (parseDigits 16 (drop 2 t))
         else if take 2 t = ''0o'' \<or> take 2 t = ''0O'' then map_option int (parseDigits 8 (drop 2 t))
         else if take 2 t = ''0b'' \<or> take 2 t = ''0B'' then map_option int (parseDigits 2 (drop 2 t))
         else if hd t = CHR ''+'' then map_option int (parseDigits 10 (tl t))
         else if hd t = CHR ''-'' then map_option (\<lambda>n. - int n) (parseDigits 10 (tl t))
         else map_option int (parseDigits 10 t))"

definition BigInt :: "string \<Rightarrow> error + int" where
  "BigInt s = (case stringToBigInt s of None \<Rightarrow> Inl SyntaxError | Some n \<Rightarrow> Inr n)"

text \<open>\<open>BigInt.prototype.toString(16)\<close>: lower-case digits, no leading zero, a minus sign
  before the digits of a negative value.\<close>

definition hexDigit :: "nat \<Rightarrow> char" where
  "hexDigit d = ''0123456789abcdef'' ! d"

function hexNat :: "nat \<Rightarrow> string" where
  "hexNat n = (if n < 16 then [hexDigit n] else hexNat (n div 16) @ [hexDigit (n mod 16)])"
  by pat_completeness auto
termination
  by (relation "measure id") auto

declare hexNat.simps [simp del]

definition toString16 :: "int \<Rightarrow> string" where
  "toString16 n = (if n < 0 then CHR ''-'' # hexNat (nat (- n)) else hexNat (nat n))"

text \<open>\<open>s.padStart(k, c)\<close> with a one-character filler, and \<open>s.slice(2)\<close>.\<close>

definition padStart :: "nat \<Rightarrow> char \<Rightarrow> string \<Rightarrow> string" where
  "padStart k c s = replicate (k - length s) c @ s"

definition slice2 :: "string \<Rightarrow> string" where
  "slice2 s = drop 2 s"

text \<open>
  An \<open>ArrayBuffer\<close> is a list of bytes, each a number below 256. The \<open>DataView\<close>
  setters overwrite bytes from an offset on; every offset in the modelled code lies inside
  the buffer. A value is reduced modulo the width of its field, as \<open>ToUint8\<close>,
  \<open>ToUint32\<close> and \<open>ToBigUint64\<close> do.
\<close>

definition newArrayBuffer :: "nat \<Rightarrow> nat list" where
  "newArrayBuffer k = replicate k 0"

definition le_bytes :: "nat \<Rightarrow> nat \<Rightarrow> nat list" where
  "le_bytes k n = map (\<lambda>i. (n div 256 ^ i) mod 256) [0..<k]"

definition writeBytes :: "nat list \<Rightarrow> nat \<Rightarrow> nat list \<Rightarrow> nat list" where
  "writeBytes buf off bs = take off buf @ bs @ drop (off + length bs) buf"

definition setUint8 :: "nat list \<Rightarrow> nat \<Rightarrow> int \<Rightarrow> nat list" where
  "setUint8 buf off v = writeBytes buf off [nat (v mod 256)]"

definition setUint32 :: "nat list \<Rightarrow> nat \<Rightarrow> int \<Rightarrow> bool \<Rightarrow> nat list" where
  "setUint32 buf off v littleEndian =
     (let bs = le_bytes 4 (nat (v mod 2 ^ 32))
      in writeBytes buf off (if littleEndian then bs else rev bs))"

definition setBigUint64 :: "nat list \<Rightarrow> nat \<Rightarrow> int \<Rightarrow> bool \<Rightarrow> nat list" where
  "setBigUint64 buf off v littleEndian =
     (let bs = le_bytes 8 (nat (v mod 2 ^ 64))
      in writeBytes buf off (if littleEndian then bs else rev bs))"

text \<open>The unsigned value of a little-endian byte string, for stating what was encoded.\<close>

fun le_value :: "nat list \<Rightarrow> nat" where
  "le_value [] = 0"
| "le_value (b # bs) = b + 256 * le_value bs"


section \<open>EVM transaction requests (evm-payment.ts)\<close>

text \<open>The fields of \<open>EVMTransactionRequest\<close> carry the prefix \<open>tx_\<close>.\<close>

record EVMTransactionRequest =
  tx_to :: string
  tx_value :: "string option"
  tx_data :: "string option"
  tx_gasLimit :: "string option"
  tx_maxFeePerGas :: "string option"
  tx_maxPriorityFeePerGas :: "string option"
  tx_chainId :: "nat option"

text \<open>
  \<open>getChainId\<close> indexes an object literal with six keys. Its parameter type is
  \<open>EVMNetwork\<close>, but the caller passes \<open>spec.network as EVMNetwork\<close>, a cast that
  checks nothing at run time: for a key that is not in the table the lookup yields
  \<open>undefined\<close>.
\<close>

definition chainIds :: "(X402Network \<times> nat) list" where
  "chainIds =
     [(base_mainnet, 8453), (base_sepolia, 84532), (polygon, 137),
      (bsc, 56), (sei, 1329), (peaq, 3338)]"

definition getChainId :: "X402Network \<Rightarrow> nat option" where
  "getChainId n = map_of chainIds n"

definition encodeERC20Transfer :: "string \<Rightarrow> string \<Rightarrow> error + string" where
  "encodeERC20Transfer to amt =
     (let functionSelector = ''0xa9059cbb'';
          paddedAddress = padStart 64 CHR ''0'' (slice2 to)
      in case BigInt amt of
           Inl e \<Rightarrow> Inl e
         | Inr n \<Rightarrow>
             (let paddedAmount = padStart 64 CHR ''0'' (toString16 n)
              in Inr (functionSelector @ paddedAddress @ paddedAmount)))"

text \<open>The string literal that \<open>createEVMTransactionRequest\<close> compares the asset address
  with.\<close>

definition zeroAddress :: string where
  "zeroAddress = ''0x0000000000000000000000000000000000000000''"

definition isNativeToken :: "X402PaymentSpec \<Rightarrow> bool" where
  "isNativeToken spec =
     (case asset (price spec) of
        None \<Rightarrow> True
      | Some a \<Rightarrow> address a = zeroAddress)"

definition createEVMTransactionRequest :: "X402PaymentSpec \<Rightarrow> error + EVMTransactionRequest" where
  "createEVMTransactionRequest spec =
     (if isNativeToken spec then
        Inr \<lparr> tx_to = address (recipient spec),
              tx_value = Some (amount (price spec)),
              tx_data = None,
              tx_gasLimit = None,
              tx_maxFeePerGas = None,
              tx_maxPriorityFeePerGas = None,
              tx_chainId = getChainId (network spec) \<rparr>
      else
        (case encodeERC20Transfer (address (recipient spec)) (amount (price spec)) of
           Inl e \<Rightarrow> Inl e
         | Inr transferData \<Rightarrow>
             Inr \<lparr> tx_to = address (the (asset (price spec))),
                   tx_value = None,
                   tx_data = Some transferData,
                   tx_gasLimit = None,
                   tx_maxFeePerGas = None,
                   tx_maxPriorityFeePerGas = None,
                   tx_chainId = getChainId (network spec) \<rparr>))"


section \<open>Solana transaction requests (solana-payment.ts)\<close>

record SolanaAccountMeta =
  pubkey :: string
  isSigner :: bool
  isWritable :: bool

record SolanaInstruction =
  programId :: string
  keys :: "SolanaAccountMeta list"
  data :: "nat list"

record SolanaComputeBudget =
  units :: "int option"
  microLamports :: "int option"

record SolanaTransactionRequest =
  recentBlockhash :: string
  feePayer :: string
  instructions :: "SolanaInstruction list"
  computeBudget :: "SolanaComputeBudget option"

definition encodeSOLTransfer :: "string \<Rightarrow> error + nat list" where
  "encodeSOLTransfer amt =
     (let instruction = 2
      in case BigInt amt of
           Inl e \<Rightarrow> Inl e
         | Inr lamports \<Rightarrow>
             (let buffer = newArrayBuffer 12;
                  buffer = setUint32 buffer 0 instruction True;
                  buffer = setBigUint64 buffer 4 lamports True
              in Inr buffer))"

definition encodeSPLTokenTransfer :: "string \<Rightarrow> error + nat list" where
  "encodeSPLTokenTransfer amt =
     (let instruction = 3
      in case BigInt amt of
           Inl e \<Rightarrow> Inl e
         | Inr tokenAmount \<Rightarrow>
             (let buffer = newArrayBuffer 9;
                  buffer = setUint8 buffer 0 instruction;
                  buffer = setBigUint64 buffer 1 tokenAmount True
              in Inr buffer))"

definition getAssociatedTokenAddress :: "string \<Rightarrow> string \<Rightarrow> string" where
  "getAssociatedTokenAddress owner mint = owner @ ''_'' @ mint @ ''_ata''"

definition isNativeSOL :: "X402PaymentSpec \<Rightarrow> bool" where
  "isNativeSOL spec =
     (case asset (price spec) of
        None \<Rightarrow> True
      | Some a \<Rightarrow> address a = ''native'')"

definition createSolanaTransactionRequest ::
  "X402PaymentSpec \<Rightarrow> string \<Rightarrow> string \<Rightarrow> error + SolanaTransactionRequest" where
  "createSolanaTransactionRequest spec blockhash payer =
     (if isNativeSOL spec then
        (case encodeSOLTransfer (amount (price spec)) of
           Inl e \<Rightarrow> Inl e
         | Inr d \<Rightarrow>
             Inr \<lparr> recentBlockhash = blockhash,
                   feePayer = payer,
                   instructions =
                     [\<lparr> programId = ''11111111111111111111111111111111'',
                        keys =
                          [\<lparr> pubkey = payer, isSigner = True, isWritable = True \<rparr>,
                           \<lparr> pubkey = address (recipient spec), isSigner = False, isWritable = True \<rparr>],
                        data = d \<rparr>],
                   computeBudget = None \<rparr>)
      else
        (let mint = address (the (asset (price spec)))
         in case encodeSPLTokenTransfer (amount (price spec)) of
              Inl e \<Rightarrow> Inl e
            | Inr d \<Rightarrow>
                Inr \<lparr> recentBlockhash = blockhash,
                      feePayer = payer,
                      instructions =
                        [\<lparr> programId = ''TokenkegQfeZyiNwAJbNbGKPFXCWuBvf9Ss623VQ5DA'',
                           keys =
                             [\<lparr> pubkey = getAssociatedTokenAddress payer mint,
                                isSigner = False, isWritable = True \<rparr>,
                              \<lparr> pubkey = mint, isSigner = False, isWritable = False \<rparr>,
                              \<lparr> pubkey = getAssociatedTokenAddress (address (recipient spec)) mint,
                                isSigner = False, isWritable = True \<rparr>,
                              \<lparr> pubkey = payer, isSigner = True, isWritable = False \<rparr>],
                           data = d \<rparr>],
                      computeBudget = None \<rparr>))"


section \<open>Sample specifications and proofs\<close>

text \<open>Concrete inputs on which the theorems below are instantiated.\<close>

definition spec_base_native :: X402PaymentSpec where
  "spec_base_native =
     \<lparr> version = V1_0, scheme = scheme_exact, network = base_mainnet,
       price = \<lparr> amount = ''10000000000000000'', currency = ETH, asset = None \<rparr>,
       recipient = \<lparr> address = ''0x8ba1f109551bD432803012645Ac136ddd64DBA72'' \<rparr>,
       resource = \<lparr> uri = ''/api/paid-endpoint'', description = Some ''API Request'' \<rparr>,
       metadata = None \<rparr>"

definition spec_base_usdc :: X402PaymentSpec where
  "spec_base_usdc =
     spec_base_native
       \<lparr> price := \<lparr> amount = ''1000000'', currency = USDC,
                    asset = Some \<lparr> address = ''0x833589fCD6eDb6E08f4c7C32D4f71b54bdA02913'' \<rparr> \<rparr> \<rparr>"

definition spec_solana_native :: X402PaymentSpec where
  "spec_solana_native =
     \<lparr> version = V1_0, scheme = scheme_exact, network = solana_mainnet,
       price = \<lparr> amount = ''10000000'', currency = SOL, asset = None \<rparr>,
       recipient = \<lparr> address = ''7xKXtg2CW87d97TXJSDpbD5jBkheTqA83TZRuJosgAsU'' \<rparr>,
       resource = \<lparr> uri = ''/api/paid-endpoint'', description = None \<rparr>,
       metadata = None \<rparr>"

definition spec_solana_usdc :: X402PaymentSpec where
  "spec_solana_usdc =
     spec_solana_native
       \<lparr> price := \<lparr> amount = ''1000000'', currency = USDC,
                    asset = Some \<lparr> address = ''EPjFWdd5AufqSSqeM2qN1xzybapC8G4wEGGkZwyTDt1v'' \<rparr> \<rparr> \<rparr>"

definition evm_proof :: EVMPaymentProof where
  "evm_proof =
     \<lparr> p_txHash = ''0x5c504ed432cb51138bcf09aa5e8a410dd4a1e204ef84bfed1be16dfba1b22060'',
       p_network = base_mainnet,
       p_from = ''0x1f9090aaE28b8a3dCeaDf281B0F12828e676c326'',
       p_to = ''0x8ba1f109551bd432803012645ac136ddd64dba72'',
       p_amount = ''10000000000000000'',
       p_timestamp = 1700000000,
       p_blockNumber = Some 8200000,
       transactionIndex = Some 3,
       gasUsed = Some ''21000'',
       effectiveGasPrice = Some ''1000000000'' \<rparr>"

definition evm_proof_other_sender :: EVMPaymentProof where
  "evm_proof_other_sender =
     evm_proof
       \<lparr> p_from := ''0x95222290DD7278Aa3Ddd389Cc1E1d165CC4BAfe5'',
         p_timestamp := 1700000999,
         p_blockNumber := Some 8200777,
         transactionIndex := None,
         gasUsed := None,
         effectiveGasPrice := Some ''7'' \<rparr>"

definition solana_proof :: SolanaPaymentProof where
  "solana_proof =
     \<lparr> p_txHash = ''5VERv8NMvzbJMEkV8xnrLkEaWRtSz9CosKDYjCJjBRnbJLgp8uirBgmQpjKhoR4tjF3ZpRzrFmBV6UjKdiSZkQUW'',
       p_network = solana_mainnet,
       p_from = ''9WzDXwBbmkg8ZTbNMqUxvQRAyrZzDsGYdLVL9zYtAWWM'',
       p_to = ''7xKXtg2CW87d97TXJSDpbD5jBkheTqA83TZRuJosgAsU'',
       p_amount = ''10000000'',
       p_timestamp = 1700000000,
       p_blockNumber = None,
       slot = 250000000,
       signature = ''5VERv8NMvzbJMEkV8xnrLkEaWRtSz9CosKDYjCJjBRnbJLgp8uirBgmQpjKhoR4tjF3ZpRzrFmBV6UjKdiSZkQUW'',
       confirmationStatus = finalized,
       fee = Some 5000 \<rparr>"

definition solana_proof_other_sender :: SolanaPaymentProof where
  "solana_proof_other_sender =
     solana_proof
       \<lparr> p_from := ''4Nd1mBQtrMJVYVfKf2PJy9NZUZdTAsp7D4xWLs4gDB4T'',
         p_timestamp := 1700000999,
         slot := 250000777,
         fee := None \<rparr>"

text \<open>A proof whose recipient is the specification's recipient with its second letter in
  the other case: another well-formed base58 address.\<close>

definition solana_proof_other_case :: SolanaPaymentProof where
  "solana_proof_other_case =
     solana_proof \<lparr> p_to := ''7XKXtg2CW87d97TXJSDpbD5jBkheTqA83TZRuJosgAsU'' \<rparr>"

definition spec_solana_zero_asset :: X402PaymentSpec where
  "spec_solana_zero_asset =
     spec_solana_native
       \<lparr> price := \<lparr> amount = ''10000000'', currency = SOL,
                    asset = Some \<lparr> address = zeroAddress \<rparr> \<rparr> \<rparr>"

definition spec_base_usdc_huge :: X402PaymentSpec where
  "spec_base_usdc_huge =
     spec_base_usdc
       \<lparr> price := (price spec_base_usdc)
           \<lparr> amount := ''115792089237316195423570985008687907853269984665640564039457584007913129639936'' \<rparr> \<rparr>"

definition spec_solana_native_huge :: X402PaymentSpec where
  "spec_solana_native_huge =
     spec_solana_native
       \<lparr> price := (price spec_solana_native) \<lparr> amount := ''18446744073709551616'' \<rparr> \<rparr>"


text \<open>The two token specifications again, with other fields that the builders do not read.\<close>

definition spec_base_usdc_relabelled :: X402PaymentSpec where
  "spec_base_usdc_relabelled =
     spec_base_usdc
       \<lparr> scheme := scheme_max,
         resource := \<lparr> uri = ''/api/other'', description = None \<rparr>,
         metadata := Some [(''order'', ''42'')] \<rparr>"

definition spec_solana_usdc_relabelled :: X402PaymentSpec where
  "spec_solana_usdc_relabelled =
     spec_solana_usdc
       \<lparr> scheme := scheme_max,
         network := solana_devnet,
         resource := \<lparr> uri = ''/api/other'', description = None \<rparr>,
         metadata := Some [(''order'', ''42'')] \<rparr>"


section \<open>Comparing strings up to letter case\<close>

lemma char_of_eq_of_char: "n < 256 \<Longrightarrow> (char_of (n::nat) = d) = (n = of_char d)"
  by (metis char_of_char mod_less of_char_of)

lemma toLowerCaseChar_eq_iff:
  "(toLowerCaseChar c = toLowerCaseChar d) = same_letter c d"
proof -
  define n m :: nat where "n = of_char c" and "m = of_char d"
  have eq: "(c = d) = (n = m)"
    by (simp add: n_def m_def)
  have lc: "toLowerCaseChar c = (if isUpperCase c then char_of (n + 32) else c)"
    by (simp add: toLowerCaseChar_def n_def)
  have ld: "toLowerCaseChar d = (if isUpperCase d then char_of (m + 32) else d)"
    by (simp add: toLowerCaseChar_def m_def)
  have uc: "isUpperCase c = ((65 \<le> n \<and> n \<le> 90) \<or> (192 \<le> n \<and> n \<le> 222 \<and> n \<noteq> 215))"
    by (simp add: isUpperCase_def Let_def n_def)
  have ud: "isUpperCase d = ((65 \<le> m \<and> m \<le> 90) \<or> (192 \<le> m \<and> m \<le> 222 \<and> m \<noteq> 215))"
    by (simp add: isUpperCase_def Let_def m_def)
  have upc: "n + 32 < 256" if "isUpperCase c"
    using that uc by arith
  have upd: "m + 32 < 256" if "isUpperCase d"
    using that ud by arith
  have sl: "same_letter c d = (n = m \<or> (isUpperCase c \<and> m = n + 32) \<or> (isUpperCase d \<and> n = m + 32))"
    unfolding same_letter_def n_def m_def by simp
  have cc: "(char_of (n + 32) = char_of (m + 32)) = (n = m)" if "isUpperCase c" "isUpperCase d"
    using upc[OF that(1)] upd[OF that(2)] by simp
  have cd: "(char_of (n + 32) = d) = (n + 32 = m)" if "isUpperCase c"
    using upc[OF that] by (simp add: char_of_eq_of_char m_def)
  have dc: "(c = char_of (m + 32)) = (n = m + 32)" if "isUpperCase d"
    using upd[OF that] by (auto simp add: char_of_eq_of_char n_def eq_commute[of c])
  show ?thesis
  proof (cases "isUpperCase c"; cases "isUpperCase d")
    assume a: "isUpperCase c" and b: "isUpperCase d"
    have "(toLowerCaseChar c = toLowerCaseChar d) = (n = m)"
      using cc[OF a b] a b by (simp only: lc ld if_True)
    moreover have "same_letter c d = (n = m)"
      using a b uc ud unfolding sl by arith
    ultimately show ?thesis by simp
  next
    assume a: "isUpperCase c" and b: "\<not> isUpperCase d"
    have "(toLowerCaseChar c = toLowerCaseChar d) = (n + 32 = m)"
      using cd[OF a] a b by (simp only: lc ld if_True if_False)
    moreover have "same_letter c d = (n + 32 = m)"
      using a b uc ud unfolding sl by arith
    ultimately show ?thesis by simp
  next
    assume a: "\<not> isUpperCase c" and b: "isUpperCase d"
    have "(toLowerCaseChar c = toLowerCaseChar d) = (n = m + 32)"
      using dc[OF b] a b by (simp only: lc ld if_True if_False)
    moreover have "same_letter c d = (n = m + 32)"
      using a b uc ud unfolding sl by arith
    ultimately show ?thesis by simp
  next
    assume a: "\<not> isUpperCase c" and b: "\<not> isUpperCase d"
    have "(toLowerCaseChar c = toLowerCaseChar d) = (n = m)"
      using a b eq by (simp only: lc ld if_False)
    moreover have "same_letter c d = (n = m)"
      using a b unfolding sl by simp
    ultimately show ?thesis by simp
  qed
qed

lemma toLowerCase_eq_iff: "(toLowerCase s = toLowerCase t) = eq_ignore_case s t"
proof (induction s arbitrary: t)
  case Nil
  then show ?case by (simp add: toLowerCase_def eq_ignore_case_def)
next
  case (Cons c s)
  show ?case
  proof (cases t)
    case Nil
    then show ?thesis by (simp add: toLowerCase_def eq_ignore_case_def)
  next
    case (Cons d t')
    have "(toLowerCase s = toLowerCase t') = eq_ignore_case s t'"
      by (rule Cons.IH)
    then show ?thesis
      using Cons by (simp add: toLowerCase_def eq_ignore_case_def toLowerCaseChar_eq_iff)
  qed
qed


section \<open>Little-endian bytes and hexadecimal numerals\<close>

lemma le_bytes_Suc: "le_bytes (Suc k) n = (n mod 256) # le_bytes k (n div 256)"
proof -
  have "[0..<Suc k] = 0 # map Suc [0..<k]"
    by (simp add: upt_conv_Cons map_Suc_upt del: upt_Suc)
  then have "le_bytes (Suc k) n = (n mod 256) # map (\<lambda>i. (n div 256 ^ Suc i) mod 256) [0..<k]"
    by (simp add: le_bytes_def comp_def del: upt_Suc)
  moreover have "(n div 256 ^ Suc i) mod 256 = ((n div 256) div 256 ^ i) mod 256" for i
    by (simp add: div_mult2_eq)
  ultimately show ?thesis
    by (simp add: le_bytes_def)
qed

lemma length_le_bytes: "length (le_bytes k n) = k"
  by (simp add: le_bytes_def)

lemma le_bytes_bound: "b \<in> set (le_bytes k n) \<Longrightarrow> b < 256"
  by (auto simp add: le_bytes_def)

lemma le_value_le_bytes: "le_value (le_bytes k n) = n mod 256 ^ k"
proof (induction k arbitrary: n)
  case 0
  then show ?case by (simp add: le_bytes_def)
next
  case (Suc k)
  have "le_value (le_bytes (Suc k) n) = n mod 256 + 256 * ((n div 256) mod 256 ^ k)"
    by (simp add: le_bytes_Suc Suc.IH)
  also have "\<dots> = n mod (256 * 256 ^ k)"
    by (simp add: mod_mult2_eq)
  finally show ?case by simp
qed

lemma le_bytes_4_2: "le_bytes 4 2 = [2, 0, 0, 0]"
  by code_simp

lemma encodeSOLTransfer_eq:
  "encodeSOLTransfer amt =
     (case stringToBigInt amt of
        None \<Rightarrow> Inl SyntaxError
      | Some n \<Rightarrow> Inr ([2, 0, 0, 0] @ le_bytes 8 (nat (n mod 2 ^ 64))))"
  by (simp add: encodeSOLTransfer_def BigInt_def newArrayBuffer_def setUint32_def setBigUint64_def
      writeBytes_def le_bytes_4_2 length_le_bytes Let_def split: option.split)

lemma encodeSPLTokenTransfer_eq:
  "encodeSPLTokenTransfer amt =
     (case stringToBigInt amt of
        None \<Rightarrow> Inl SyntaxError
      | Some n \<Rightarrow> Inr ([3] @ le_bytes 8 (nat (n mod 2 ^ 64))))"
  by (simp add: encodeSPLTokenTransfer_def BigInt_def newArrayBuffer_def setUint8_def setBigUint64_def
      writeBytes_def length_le_bytes Let_def split: option.split)

lemma hexNat_small: "n < 16 \<Longrightarrow> hexNat n = [hexDigit n]"
  by (simp add: hexNat.simps[of n])

lemma hexNat_large: "\<not> n < 16 \<Longrightarrow> hexNat n = hexNat (n div 16) @ [hexDigit (n mod 16)]"
  by (simp add: hexNat.simps[of n])

lemma digitValue_hexDigit_all: "\<forall>d \<in> set [0..<16]. digitValue (hexDigit d) = Some d"
  by code_simp

lemma digitValue_hexDigit: "d < 16 \<Longrightarrow> digitValue (hexDigit d) = Some d"
  using digitValue_hexDigit_all by simp

lemma hexDigit_in: "d < 16 \<Longrightarrow> hexDigit d \<in> set ''0123456789abcdef''"
  unfolding hexDigit_def by (rule nth_mem) simp

lemma parseDigitsFrom_append:
  "parseDigitsFrom b acc (xs @ ys) =
     (case parseDigitsFrom b acc xs of None \<Rightarrow> None | Some a \<Rightarrow> parseDigitsFrom b a ys)"
  by (induction xs arbitrary: acc) (auto split: option.split)

lemma parseDigitsFrom_hexNat:
  "parseDigitsFrom 16 acc (hexNat n) = Some (acc * 16 ^ length (hexNat n) + n)"
proof (induction n arbitrary: acc rule: hexNat.induct)
  case (1 n)
  show ?case
  proof (cases "n < 16")
    case True
    then show ?thesis
      by (simp add: hexNat_small digitValue_hexDigit)
  next
    case False
    have h: "hexNat n = hexNat (n div 16) @ [hexDigit (n mod 16)]"
      using False by (rule hexNat_large)
    have "parseDigitsFrom 16 acc (hexNat n)
        = Some ((acc * 16 ^ length (hexNat (n div 16)) + n div 16) * 16 + n mod 16)"
      unfolding h parseDigitsFrom_append "1.IH"[OF False]
      by (simp add: digitValue_hexDigit)
    also have "(acc * 16 ^ length (hexNat (n div 16)) + n div 16) * 16 + n mod 16
        = acc * 16 ^ length (hexNat n) + n"
      unfolding h by (simp add: algebra_simps)
    finally show ?thesis .
  qed
qed

lemma length_hexNat: "n < 16 ^ k \<Longrightarrow> 0 < k \<Longrightarrow> length (hexNat n) \<le> k"
proof (induction n arbitrary: k rule: hexNat.induct)
  case (1 n)
  show ?case
  proof (cases "n < 16")
    case True
    then show ?thesis using "1.prems" by (simp add: hexNat_small)
  next
    case False
    obtain j where k: "k = Suc j"
      using "1.prems"(2) by (cases k) auto
    have j: "0 < j"
      using False "1.prems"(1) k by (cases j) auto
    have "n div 16 < 16 ^ j"
      using "1.prems"(1) k by (simp add: less_mult_imp_div_less mult.commute)
    then have "length (hexNat (n div 16)) \<le> j"
      using "1.IH"[OF False] j by simp
    moreover have "hexNat n = hexNat (n div 16) @ [hexDigit (n mod 16)]"
      using False by (rule hexNat_large)
    ultimately show ?thesis
      using k by simp
  qed
qed

lemma set_hexNat: "set (hexNat n) \<subseteq> set ''0123456789abcdef''"
proof (induction n rule: hexNat.induct)
  case (1 n)
  show ?case
  proof (cases "n < 16")
    case True
    then show ?thesis using hexDigit_in[of n] by (simp add: hexNat_small)
  next
    case False
    have "hexNat n = hexNat (n div 16) @ [hexDigit (n mod 16)]"
      using False by (rule hexNat_large)
    then show ?thesis
      using "1.IH"[OF False] hexDigit_in[of "n mod 16"] by simp
  qed
qed

lemma digitValue_zero: "digitValue CHR ''0'' = Some 0"
  by (simp add: digitValue_def)

lemma parseDigitsFrom_zeros:
  "parseDigitsFrom 16 0 (replicate k CHR ''0'' @ s) = parseDigitsFrom 16 0 s"
  by (induction k) (simp_all add: digitValue_zero)

lemma hexNat_not_Nil: "hexNat n \<noteq> []"
  by (cases "n < 16") (simp_all add: hexNat_small hexNat_large)

lemma paddedAmount_ok:
  assumes "n < 2 ^ 256"
  defines "pa \<equiv> padStart 64 CHR ''0'' (hexNat n)"
  shows "length pa = 64" and "parseDigits 16 pa = Some n" and "set pa \<subseteq> set ''0123456789abcdef''"
proof -
  have "(2::nat) ^ 256 = 16 ^ 64"
    by simp
  then have len: "length (hexNat n) \<le> 64"
    using assms(1) length_hexNat[of n 64] by simp
  then show "length pa = 64"
    by (simp add: pa_def padStart_def)
  have "pa \<noteq> []"
    using hexNat_not_Nil by (simp add: pa_def padStart_def)
  then show "parseDigits 16 pa = Some n"
    by (simp add: parseDigits_def) (simp add: pa_def padStart_def parseDigitsFrom_zeros parseDigitsFrom_hexNat)
  show "set pa \<subseteq> set ''0123456789abcdef''"
    using set_hexNat[of n] by (auto simp add: pa_def padStart_def)
qed

lemma hexNat_pow16: "hexNat (16 ^ k) = CHR ''1'' # replicate k CHR ''0''"
proof (induction k)
  case 0
  have "hexDigit 1 = CHR ''1''"
    by (simp add: hexDigit_def)
  then show ?case
    by (simp add: hexNat_small)
next
  case (Suc k)
  have "\<not> (16::nat) ^ Suc k < 16"
    by simp
  then have "hexNat (16 ^ Suc k) = hexNat (16 ^ Suc k div 16) @ [hexDigit (16 ^ Suc k mod 16)]"
    by (rule hexNat_large)
  also have "\<dots> = hexNat (16 ^ k) @ [CHR ''0'']"
    by (simp add: hexDigit_def)
  finally show ?case
    by (simp add: Suc.IH replicate_append_same)
qed

lemma toString16_2_256: "toString16 (2 ^ 256) = CHR ''1'' # replicate 64 CHR ''0''"
proof -
  have e: "nat ((2::int) ^ 256) = (16::nat) ^ 64"
    by simp
  have nn: "\<not> (2::int) ^ 256 < 0"
    by simp
  show ?thesis
    unfolding toString16_def by (simp only: nn if_False e hexNat_pow16)
qed


lemma le_value_le_bytes_64: "int (le_value (le_bytes 8 (nat (n mod 2 ^ 64)))) = n mod 2 ^ 64"
proof -
  have "(0::int) \<le> n mod 2 ^ 64" and "n mod 2 ^ 64 < 2 ^ 64"
    by simp_all
  then have "nat (n mod 2 ^ 64) < 256 ^ 8"
    by (simp add: nat_less_iff)
  then have "le_value (le_bytes 8 (nat (n mod 2 ^ 64))) = nat (n mod 2 ^ 64)"
    by (simp only: le_value_le_bytes mod_less)
  then show ?thesis
    by simp
qed

lemma le_value_le_bytes_64_num:
  "int (le_value (le_bytes 8 (nat (n mod 18446744073709551616)))) = n mod 18446744073709551616"
  using le_value_le_bytes_64 [of n] by simp


section \<open>What the transaction builders return\<close>

lemma isNativeToken_iff:
  "isNativeToken s =
     (asset (price s) = None \<or> asset (price s) = Some \<lparr> address = zeroAddress \<rparr>)"
proof (cases "asset (price s)")
  case None
  then show ?thesis by (simp add: isNativeToken_def)
next
  case (Some a)
  have "(address a = zeroAddress) = (a = \<lparr> address = zeroAddress \<rparr>)"
    by (cases a) simp
  then show ?thesis
    using Some by (simp add: isNativeToken_def zeroAddress_def)
qed

lemma isNativeSOL_iff:
  "isNativeSOL s =
     (asset (price s) = None \<or> asset (price s) = Some \<lparr> address = ''native'' \<rparr>)"
proof (cases "asset (price s)")
  case None
  then show ?thesis by (simp add: isNativeSOL_def)
next
  case (Some a)
  have "(address a = ''native'') = (a = \<lparr> address = ''native'' \<rparr>)"
    by (cases a) simp
  then show ?thesis
    using Some by (simp add: isNativeSOL_def)
qed

lemma getChainId_None_iff: "(getChainId n = None) = (\<not> isEVMNetwork n)"
  by (cases n) (simp_all add: getChainId_def chainIds_def isEVMNetwork_def)

lemma createEVM_native:
  "isNativeToken s \<Longrightarrow>
   createEVMTransactionRequest s =
     Inr \<lparr> tx_to = address (recipient s), tx_value = Some (amount (price s)), tx_data = None,
           tx_gasLimit = None, tx_maxFeePerGas = None, tx_maxPriorityFeePerGas = None,
           tx_chainId = getChainId (network s) \<rparr>"
  by (simp add: createEVMTransactionRequest_def)

lemma createEVM_token:
  "\<not> isNativeToken s \<Longrightarrow> stringToBigInt (amount (price s)) = Some n \<Longrightarrow>
   createEVMTransactionRequest s =
     Inr \<lparr> tx_to = address (the (asset (price s))), tx_value = None,
           tx_data = Some (''0xa9059cbb'' @ padStart 64 CHR ''0'' (drop 2 (address (recipient s)))
                             @ padStart 64 CHR ''0'' (toString16 n)),
           tx_gasLimit = None, tx_maxFeePerGas = None, tx_maxPriorityFeePerGas = None,
           tx_chainId = getChainId (network s) \<rparr>"
  by (simp add: createEVMTransactionRequest_def encodeERC20Transfer_def BigInt_def slice2_def)

lemma createEVM_token_error:
  "\<not> isNativeToken s \<Longrightarrow> stringToBigInt (amount (price s)) = None \<Longrightarrow>
   createEVMTransactionRequest s = Inl SyntaxError"
  by (simp add: createEVMTransactionRequest_def encodeERC20Transfer_def BigInt_def)

lemma createSolana_native:
  "isNativeSOL s \<Longrightarrow> stringToBigInt (amount (price s)) = Some n \<Longrightarrow>
   createSolanaTransactionRequest s bh fp =
     Inr \<lparr> recentBlockhash = bh, feePayer = fp,
           instructions =
             [\<lparr> programId = ''11111111111111111111111111111111'',
                keys = [\<lparr> pubkey = fp, isSigner = True, isWritable = True \<rparr>,
                        \<lparr> pubkey = address (recipient s), isSigner = False, isWritable = True \<rparr>],
                data = [2, 0, 0, 0] @ le_bytes 8 (nat (n mod 2 ^ 64)) \<rparr>],
           computeBudget = None \<rparr>"
  by (simp add: createSolanaTransactionRequest_def encodeSOLTransfer_eq)

lemma createSolana_token:
  "\<not> isNativeSOL s \<Longrightarrow> stringToBigInt (amount (price s)) = Some n \<Longrightarrow>
   createSolanaTransactionRequest s bh fp =
     Inr \<lparr> recentBlockhash = bh, feePayer = fp,
           instructions =
             [\<lparr> programId = ''TokenkegQfeZyiNwAJbNbGKPFXCWuBvf9Ss623VQ5DA'',
                keys = [\<lparr> pubkey = fp @ ''_'' @ address (the (asset (price s))) @ ''_ata'',
                          isSigner = False, isWritable = True \<rparr>,
                        \<lparr> pubkey = address (the (asset (price s))), isSigner = False, isWritable = False \<rparr>,
                        \<lparr> pubkey = address (recipient s) @ ''_'' @ address (the (asset (price s))) @ ''_ata'',
                          isSigner = False, isWritable = True \<rparr>,
                        \<lparr> pubkey = fp, isSigner = True, isWritable = False \<rparr>],
                data = [3] @ le_bytes 8 (nat (n mod 2 ^ 64)) \<rparr>],
           computeBudget = None \<rparr>"
  by (simp add: createSolanaTransactionRequest_def encodeSPLTokenTransfer_eq
      getAssociatedTokenAddress_def Let_def)

lemma createSolana_error:
  "stringToBigInt (amount (price s)) = None \<Longrightarrow>
   createSolanaTransactionRequest s bh fp = Inl SyntaxError"
  by (simp add: createSolanaTransactionRequest_def encodeSOLTransfer_eq encodeSPLTokenTransfer_eq Let_def)



section \<open>The builders on the sample specifications\<close>

lemma sample_amounts:
  "stringToBigInt (amount (price spec_base_usdc)) = Some 1000000"
  "stringToBigInt (amount (price spec_solana_native)) = Some 10000000"
  "stringToBigInt (amount (price spec_solana_usdc)) = Some 1000000"
  "stringToBigInt (amount (price spec_solana_zero_asset)) = Some 10000000"
  "stringToBigInt (amount (price spec_base_usdc_huge)) = Some (2 ^ 256)"
  "stringToBigInt (amount (price spec_solana_native_huge)) = Some (2 ^ 64)"
  by code_simp+

lemma sample_native:
  "isNativeToken spec_base_native" "\<not> isNativeToken spec_base_usdc"
  "\<not> isNativeToken spec_base_usdc_huge" "isNativeToken spec_solana_native"
  "\<not> isNativeToken spec_solana_usdc"
  "isNativeSOL spec_solana_native" "\<not> isNativeSOL spec_solana_usdc"
  "\<not> isNativeSOL spec_solana_zero_asset" "isNativeSOL spec_solana_native_huge"
  by (simp_all add: isNativeToken_def isNativeSOL_def zeroAddress_def spec_base_native_def
      spec_base_usdc_def spec_base_usdc_huge_def spec_solana_native_def spec_solana_usdc_def
      spec_solana_zero_asset_def spec_solana_native_huge_def)

lemma sample_bytes:
  "le_bytes 8 (nat (10000000 mod 2 ^ 64)) = [128, 150, 152, 0, 0, 0, 0, 0]"
  "le_bytes 8 (nat (1000000 mod 2 ^ 64)) = [64, 66, 15, 0, 0, 0, 0, 0]"
  "le_bytes 8 (nat (2 ^ 64 mod 2 ^ 64)) = [0, 0, 0, 0, 0, 0, 0, 0]"
  by code_simp+

lemma sample_hex:
  "padStart 64 CHR ''0'' (toString16 1000000)
     = ''00000000000000000000000000000000000000000000000000000000000f4240''"
  "padStart 64 CHR ''0'' (drop 2 ''0x8ba1f109551bD432803012645Ac136ddd64DBA72'')
     = ''0000000000000000000000008ba1f109551bD432803012645Ac136ddd64DBA72''"
  by code_simp+

lemma createEVM_spec_base_native:
  "createEVMTransactionRequest spec_base_native =
     Inr \<lparr> tx_to = ''0x8ba1f109551bD432803012645Ac136ddd64DBA72'',
           tx_value = Some ''10000000000000000'', tx_data = None, tx_gasLimit = None,
           tx_maxFeePerGas = None, tx_maxPriorityFeePerGas = None, tx_chainId = Some 8453 \<rparr>"
  unfolding createEVM_native[OF sample_native(1)]
  by (simp add: spec_base_native_def getChainId_def chainIds_def)

lemma createEVM_spec_base_usdc:
  "createEVMTransactionRequest spec_base_usdc =
     Inr \<lparr> tx_to = ''0x833589fCD6eDb6E08f4c7C32D4f71b54bdA02913'',
           tx_value = None,
           tx_data = Some (''0xa9059cbb''
             @ ''0000000000000000000000008ba1f109551bD432803012645Ac136ddd64DBA72''
             @ ''00000000000000000000000000000000000000000000000000000000000f4240''),
           tx_gasLimit = None, tx_maxFeePerGas = None, tx_maxPriorityFeePerGas = None,
           tx_chainId = Some 8453 \<rparr>"
proof -
  have "address (recipient spec_base_usdc) = ''0x8ba1f109551bD432803012645Ac136ddd64DBA72''"
    "address (the (asset (price spec_base_usdc))) = ''0x833589fCD6eDb6E08f4c7C32D4f71b54bdA02913''"
    "getChainId (network spec_base_usdc) = Some 8453"
    by (simp_all add: spec_base_usdc_def spec_base_native_def getChainId_def chainIds_def)
  then show ?thesis
    unfolding createEVM_token[OF sample_native(2) sample_amounts(1)]
    by (simp only: sample_hex)
qed


lemma createSolana_spec_solana_native:
  "createSolanaTransactionRequest spec_solana_native
       ''EkSnNWid2cvwEVnVx9aBqawnmiCNiDgp3gUdkDPTKN1N'' ''9WzDXwBbmkg8ZTbNMqUxvQRAyrZzDsGYdLVL9zYtAWWM'' =
     Inr \<lparr> recentBlockhash = ''EkSnNWid2cvwEVnVx9aBqawnmiCNiDgp3gUdkDPTKN1N'',
           feePayer = ''9WzDXwBbmkg8ZTbNMqUxvQRAyrZzDsGYdLVL9zYtAWWM'',
           instructions =
             [\<lparr> programId = ''11111111111111111111111111111111'',
                keys = [\<lparr> pubkey = ''9WzDXwBbmkg8ZTbNMqUxvQRAyrZzDsGYdLVL9zYtAWWM'',
                          isSigner = True, isWritable = True \<rparr>,
                        \<lparr> pubkey = ''7xKXtg2CW87d97TXJSDpbD5jBkheTqA83TZRuJosgAsU'',
                          isSigner = False, isWritable = True \<rparr>],
                data = [2, 0, 0, 0, 128, 150, 152, 0, 0, 0, 0, 0] \<rparr>],
           computeBudget = None \<rparr>"
  unfolding createSolana_native[OF sample_native(6) sample_amounts(2)] sample_bytes
  by (simp add: spec_solana_native_def)

lemma createSolana_spec_solana_usdc:
  "createSolanaTransactionRequest spec_solana_usdc
       ''EkSnNWid2cvwEVnVx9aBqawnmiCNiDgp3gUdkDPTKN1N'' ''9WzDXwBbmkg8ZTbNMqUxvQRAyrZzDsGYdLVL9zYtAWWM'' =
     Inr \<lparr> recentBlockhash = ''EkSnNWid2cvwEVnVx9aBqawnmiCNiDgp3gUdkDPTKN1N'',
           feePayer = ''9WzDXwBbmkg8ZTbNMqUxvQRAyrZzDsGYdLVL9zYtAWWM'',
           instructions =
             [\<lparr> programId = ''TokenkegQfeZyiNwAJbNbGKPFXCWuBvf9Ss623VQ5DA'',
                keys = [\<lparr> pubkey = ''9WzDXwBbmkg8ZTbNMqUxvQRAyrZzDsGYdLVL9zYtAWWM_EPjFWdd5AufqSSqeM2qN1xzybapC8G4wEGGkZwyTDt1v_ata'',
                          isSigner = False, isWritable = True \<rparr>,
                        \<lparr> pubkey = ''EPjFWdd5AufqSSqeM2qN1xzybapC8G4wEGGkZwyTDt1v'',
                          isSigner = False, isWritable = False \<rparr>,
                        \<lparr> pubkey = ''7xKXtg2CW87d97TXJSDpbD5jBkheTqA83TZRuJosgAsU_EPjFWdd5AufqSSqeM2qN1xzybapC8G4wEGGkZwyTDt1v_ata'',
                          isSigner = False, isWritable = True \<rparr>,
                        \<lparr> pubkey = ''9WzDXwBbmkg8ZTbNMqUxvQRAyrZzDsGYdLVL9zYtAWWM'',
                          isSigner = True, isWritable = False \<rparr>],
                data = [3, 64, 66, 15, 0, 0, 0, 0, 0] \<rparr>],
           computeBudget = None \<rparr>"
  unfolding createSolana_token[OF sample_native(7) sample_amounts(3)] sample_bytes
  by (simp add: spec_solana_usdc_def spec_solana_native_def)


section \<open>Local verification of payment proofs\<close>

text \<open>
  Claim C1. \<open>verifyEVMPayment\<close> returns true exactly when the proof's recipient equals
  the specification's recipient up to letter case, the amounts are the same string, the
  networks are the same and the transaction hash is not empty. So it returns false
  whenever the recipient, the amount or the network differs, whatever the other fields of
  the proof hold, and true only when all three match and a transaction hash is present.
\<close>

theorem verifyEVMPayment_iff:
  "verifyEVMPayment p s rpcUrl =
     (eq_ignore_case (p_to p) (address (recipient s))
      \<and> p_amount p = amount (price s)
      \<and> p_network p = network s
      \<and> p_txHash p \<noteq> [])"
  by (simp add: verifyEVMPayment_def truthy_def toLowerCase_eq_iff)

theorem verifyEVMPayment_iff_witness:
  "p_to evm_proof \<noteq> address (recipient spec_base_native)
   \<and> verifyEVMPayment evm_proof spec_base_native ''https://mainnet.base.org''
   \<and> \<not> verifyEVMPayment (evm_proof \<lparr> p_amount := ''10000000000000001'' \<rparr>) spec_base_native
         ''https://mainnet.base.org''
   \<and> \<not> verifyEVMPayment (evm_proof \<lparr> p_network := polygon \<rparr>) spec_base_native
         ''https://mainnet.base.org''
   \<and> \<not> verifyEVMPayment (evm_proof \<lparr> p_to := ''0x1f9090aaE28b8a3dCeaDf281B0F12828e676c326'' \<rparr>)
         spec_base_native ''https://mainnet.base.org''
   \<and> \<not> verifyEVMPayment (evm_proof \<lparr> p_txHash := [] \<rparr>) spec_base_native
         ''https://mainnet.base.org''"
proof -
  let ?e = "''https://mainnet.base.org''"
  have differ: "p_to evm_proof \<noteq> address (recipient spec_base_native)"
    by (simp add: evm_proof_def spec_base_native_def)
  have same: "eq_ignore_case (p_to evm_proof) (address (recipient spec_base_native))"
    by (simp add: evm_proof_def spec_base_native_def eq_ignore_case_def same_letter_def
        isUpperCase_def)
  have other: "\<not> eq_ignore_case ''0x1f9090aaE28b8a3dCeaDf281B0F12828e676c326''
      (address (recipient spec_base_native))"
    by (simp add: spec_base_native_def eq_ignore_case_def same_letter_def isUpperCase_def)
  have rest: "p_amount evm_proof = amount (price spec_base_native)"
    "p_network evm_proof = network spec_base_native" "p_txHash evm_proof \<noteq> []"
    "network spec_base_native \<noteq> polygon"
    "amount (price spec_base_native) \<noteq> ''10000000000000001''"
    by (simp_all add: evm_proof_def spec_base_native_def)
  show ?thesis
    using differ same other rest
      verifyEVMPayment_iff [of evm_proof spec_base_native ?e]
      verifyEVMPayment_iff [of "evm_proof \<lparr> p_amount := ''10000000000000001'' \<rparr>" spec_base_native ?e]
      verifyEVMPayment_iff [of "evm_proof \<lparr> p_network := polygon \<rparr>" spec_base_native ?e]
      verifyEVMPayment_iff [of "evm_proof \<lparr> p_to := ''0x1f9090aaE28b8a3dCeaDf281B0F12828e676c326'' \<rparr>"
        spec_base_native ?e]
      verifyEVMPayment_iff [of "evm_proof \<lparr> p_txHash := [] \<rparr>" spec_base_native ?e]
    by simp
qed

text \<open>
  Claim C2. A Solana proof whose confirmation status is \<open>processed\<close> or \<open>confirmed\<close> is
  rejected by \<open>verifySolanaPayment\<close>, whatever its other fields; an accepted proof has
  the status \<open>finalized\<close>.
\<close>

theorem verifySolanaPayment_finality:
  "(confirmationStatus p = processed \<or> confirmationStatus p = confirmed
      \<longrightarrow> \<not> verifySolanaPayment p s rpcUrl)
   \<and> (verifySolanaPayment p s rpcUrl \<longrightarrow> confirmationStatus p = finalized)"
  by (auto simp add: verifySolanaPayment_def)

theorem verifySolanaPayment_finality_witness:
  "confirmationStatus (solana_proof \<lparr> confirmationStatus := confirmed \<rparr>) = confirmed
   \<and> p_to (solana_proof \<lparr> confirmationStatus := confirmed \<rparr>) = address (recipient spec_solana_native)
   \<and> p_amount (solana_proof \<lparr> confirmationStatus := confirmed \<rparr>) = amount (price spec_solana_native)
   \<and> p_network (solana_proof \<lparr> confirmationStatus := confirmed \<rparr>) = network spec_solana_native
   \<and> \<not> verifySolanaPayment (solana_proof \<lparr> confirmationStatus := confirmed \<rparr>) spec_solana_native
         ''https://api.mainnet-beta.solana.com''
   \<and> verifySolanaPayment solana_proof spec_solana_native ''https://api.mainnet-beta.solana.com''
   \<and> confirmationStatus solana_proof = finalized"
proof -
  let ?p = "solana_proof \<lparr> confirmationStatus := confirmed \<rparr>"
  let ?rpc = "''https://api.mainnet-beta.solana.com''"
  have st: "confirmationStatus ?p = processed \<or> confirmationStatus ?p = confirmed"
    by simp
  have rej: "\<not> verifySolanaPayment ?p spec_solana_native ?rpc"
    using verifySolanaPayment_finality [of ?p spec_solana_native ?rpc] st by blast
  have acc: "verifySolanaPayment solana_proof spec_solana_native ?rpc"
    by (simp add: verifySolanaPayment_def solana_proof_def spec_solana_native_def truthy_def)
  have fin: "confirmationStatus solana_proof = finalized"
    using verifySolanaPayment_finality [of solana_proof spec_solana_native ?rpc] acc by blast
  have fields:
    "p_to ?p = address (recipient spec_solana_native)"
    "p_amount ?p = amount (price spec_solana_native)"
    "p_network ?p = network spec_solana_native"
    by (simp_all add: solana_proof_def spec_solana_native_def)
  show ?thesis
    using rej acc fin fields by simp
qed

text \<open>
  Claim C3 does not hold as stated: \<open>verifySolanaPayment\<close> accepts the proof below,
  whose recipient differs from the specification's recipient in the case of one letter.
\<close>

theorem verifySolanaPayment_case_counterexample:
  "p_to solana_proof_other_case \<noteq> address (recipient spec_solana_native)
   \<and> eq_ignore_case (p_to solana_proof_other_case) (address (recipient spec_solana_native))
   \<and> verifySolanaPayment solana_proof_other_case spec_solana_native ''https://api.mainnet-beta.solana.com''"
proof -
  have a: "p_to solana_proof_other_case \<noteq> address (recipient spec_solana_native)"
    by (simp add: solana_proof_other_case_def solana_proof_def spec_solana_native_def)
  have b: "eq_ignore_case (p_to solana_proof_other_case) (address (recipient spec_solana_native))"
    by (simp add: solana_proof_other_case_def solana_proof_def spec_solana_native_def
        eq_ignore_case_def same_letter_def isUpperCase_def)
  have c: "toLowerCase (p_to solana_proof_other_case) = toLowerCase (address (recipient spec_solana_native))"
    using b by (simp only: toLowerCase_eq_iff)
  have d: "verifySolanaPayment solana_proof_other_case spec_solana_native ''https://api.mainnet-beta.solana.com''"
    unfolding verifySolanaPayment_def using c
    by (simp add: solana_proof_other_case_def solana_proof_def spec_solana_native_def truthy_def)
  show ?thesis
    using a b d by simp
qed

text \<open>
  Claim C3, as the code has it. \<open>verifySolanaPayment\<close> lower-cases both recipient
  addresses before it compares them, as the EVM check does: it accepts exactly when the
  recipients are equal up to letter case, the amounts and the networks are equal, the
  signature is not empty and the status is \<open>finalized\<close>.
\<close>

theorem verifySolanaPayment_iff:
  "verifySolanaPayment p s rpcUrl =
     (eq_ignore_case (p_to p) (address (recipient s))
      \<and> p_amount p = amount (price s)
      \<and> p_network p = network s
      \<and> signature p \<noteq> []
      \<and> confirmationStatus p = finalized)"
  by (simp add: verifySolanaPayment_def truthy_def toLowerCase_eq_iff)

theorem verifySolanaPayment_iff_witness:
  "verifySolanaPayment solana_proof spec_solana_native ''https://api.devnet.solana.com''
   \<and> \<not> verifySolanaPayment (solana_proof \<lparr> p_to := p_from solana_proof \<rparr>) spec_solana_native
         ''https://api.devnet.solana.com''"
proof -
  let ?r = "''https://api.devnet.solana.com''"
  have same: "eq_ignore_case (p_to solana_proof) (address (recipient spec_solana_native))"
    by (simp add: solana_proof_def spec_solana_native_def eq_ignore_case_def same_letter_def)
  have other: "\<not> eq_ignore_case (p_from solana_proof) (address (recipient spec_solana_native))"
    by (simp add: solana_proof_def spec_solana_native_def eq_ignore_case_def same_letter_def
        isUpperCase_def)
  have rest: "p_amount solana_proof = amount (price spec_solana_native)"
    "p_network solana_proof = network spec_solana_native" "signature solana_proof \<noteq> []"
    "confirmationStatus solana_proof = finalized"
    by (simp_all add: solana_proof_def spec_solana_native_def)
  show ?thesis
    using same other rest
      verifySolanaPayment_iff [of solana_proof spec_solana_native ?r]
      verifySolanaPayment_iff [of "solana_proof \<lparr> p_to := p_from solana_proof \<rparr>" spec_solana_native ?r]
    by simp
qed

text \<open>
  Claim C9. Local verification reads only the recipient, the amount, the network and the
  transaction identifier of a proof (and, on Solana, the confirmation status): two EVM
  proofs that agree on \<open>to\<close>, \<open>amount\<close>, \<open>network\<close> and \<open>txHash\<close> get the same
  verdict, and so do two Solana proofs that agree on \<open>to\<close>, \<open>amount\<close>, \<open>network\<close>,
  \<open>signature\<close> and \<open>confirmationStatus\<close>, however the sender, the timestamp, the
  block or slot number, the gas fields or the fee differ.
\<close>

theorem verify_ignores_ancillary_fields:
  "(p_to p = p_to q \<and> p_amount p = p_amount q \<and> p_network p = p_network q
      \<and> p_txHash p = p_txHash q
      \<longrightarrow> verifyEVMPayment p s rpcUrl = verifyEVMPayment q s rpcUrl)
   \<and> (p_to p' = p_to q' \<and> p_amount p' = p_amount q' \<and> p_network p' = p_network q'
      \<and> signature p' = signature q' \<and> confirmationStatus p' = confirmationStatus q'
      \<longrightarrow> verifySolanaPayment p' s' rpcUrl' = verifySolanaPayment q' s' rpcUrl')"
  by (simp add: verifyEVMPayment_def verifySolanaPayment_def)

theorem verify_ignores_ancillary_fields_witness:
  "p_from evm_proof \<noteq> p_from evm_proof_other_sender
   \<and> p_timestamp evm_proof \<noteq> p_timestamp evm_proof_other_sender
   \<and> p_blockNumber evm_proof \<noteq> p_blockNumber evm_proof_other_sender
   \<and> transactionIndex evm_proof \<noteq> transactionIndex evm_proof_other_sender
   \<and> gasUsed evm_proof \<noteq> gasUsed evm_proof_other_sender
   \<and> effectiveGasPrice evm_proof \<noteq> effectiveGasPrice evm_proof_other_sender
   \<and> verifyEVMPayment evm_proof spec_base_native ''https://mainnet.base.org''
   \<and> verifyEVMPayment evm_proof_other_sender spec_base_native ''https://mainnet.base.org''
   \<and> p_from solana_proof \<noteq> p_from solana_proof_other_sender
   \<and> p_timestamp solana_proof \<noteq> p_timestamp solana_proof_other_sender
   \<and> slot solana_proof \<noteq> slot solana_proof_other_sender
   \<and> fee solana_proof \<noteq> fee solana_proof_other_sender
   \<and> verifySolanaPayment solana_proof spec_solana_native ''https://api.mainnet-beta.solana.com''
   \<and> verifySolanaPayment solana_proof_other_sender spec_solana_native
        ''https://api.mainnet-beta.solana.com''"
proof -
  let ?e = "''https://mainnet.base.org''" and ?r = "''https://api.mainnet-beta.solana.com''"
  have agree_evm:
    "p_to evm_proof = p_to evm_proof_other_sender \<and> p_amount evm_proof = p_amount evm_proof_other_sender
     \<and> p_network evm_proof = p_network evm_proof_other_sender
     \<and> p_txHash evm_proof = p_txHash evm_proof_other_sender"
    by (simp add: evm_proof_other_sender_def)
  have agree_sol:
    "p_to solana_proof = p_to solana_proof_other_sender
     \<and> p_amount solana_proof = p_amount solana_proof_other_sender
     \<and> p_network solana_proof = p_network solana_proof_other_sender
     \<and> signature solana_proof = signature solana_proof_other_sender
     \<and> confirmationStatus solana_proof = confirmationStatus solana_proof_other_sender"
    by (simp add: solana_proof_other_sender_def)
  have same_evm: "verifyEVMPayment evm_proof spec_base_native ?e
      = verifyEVMPayment evm_proof_other_sender spec_base_native ?e"
    using verify_ignores_ancillary_fields
      [of evm_proof evm_proof_other_sender spec_base_native ?e] agree_evm by blast
  have same_sol: "verifySolanaPayment solana_proof spec_solana_native ?r
      = verifySolanaPayment solana_proof_other_sender spec_solana_native ?r"
    using verify_ignores_ancillary_fields
      [of _ _ _ _ solana_proof solana_proof_other_sender spec_solana_native ?r] agree_sol by blast
  have low: "toLowerCase (p_to evm_proof) = toLowerCase (address (recipient spec_base_native))"
    unfolding toLowerCase_eq_iff
    by (simp add: evm_proof_def spec_base_native_def eq_ignore_case_def same_letter_def isUpperCase_def)
  have evm_ok: "verifyEVMPayment evm_proof spec_base_native ?e"
    unfolding verifyEVMPayment_def using low
    by (simp add: evm_proof_def spec_base_native_def truthy_def)
  have sol_ok: "verifySolanaPayment solana_proof spec_solana_native ?r"
    by (simp add: verifySolanaPayment_def solana_proof_def spec_solana_native_def truthy_def)
  have differ_evm:
    "p_from evm_proof \<noteq> p_from evm_proof_other_sender"
    "p_timestamp evm_proof \<noteq> p_timestamp evm_proof_other_sender"
    "p_blockNumber evm_proof \<noteq> p_blockNumber evm_proof_other_sender"
    "transactionIndex evm_proof \<noteq> transactionIndex evm_proof_other_sender"
    "gasUsed evm_proof \<noteq> gasUsed evm_proof_other_sender"
    "effectiveGasPrice evm_proof \<noteq> effectiveGasPrice evm_proof_other_sender"
    by (simp_all add: evm_proof_other_sender_def evm_proof_def)
  have differ_sol:
    "p_from solana_proof \<noteq> p_from solana_proof_other_sender"
    "p_timestamp solana_proof \<noteq> p_timestamp solana_proof_other_sender"
    "slot solana_proof \<noteq> slot solana_proof_other_sender"
    "fee solana_proof \<noteq> fee solana_proof_other_sender"
    by (simp_all add: solana_proof_other_sender_def solana_proof_def)
  show ?thesis
    using same_evm same_sol evm_ok sol_ok differ_evm differ_sol by simp
qed


section \<open>Building EVM transaction requests\<close>

text \<open>
  Claim C4 does not hold as stated: for the native Solana specification below
  \<open>createEVMTransactionRequest\<close> returns a transaction request, with no chain id.
\<close>

theorem createEVMTransactionRequest_solana_counterexample:
  "\<not> isEVMNetwork (network spec_solana_native)
   \<and> createEVMTransactionRequest spec_solana_native =
       Inr \<lparr> tx_to = ''7xKXtg2CW87d97TXJSDpbD5jBkheTqA83TZRuJosgAsU'',
             tx_value = Some ''10000000'', tx_data = None, tx_gasLimit = None,
             tx_maxFeePerGas = None, tx_maxPriorityFeePerGas = None, tx_chainId = None \<rparr>"
  unfolding createEVM_native[OF sample_native(4)]
  by (simp add: spec_solana_native_def isEVMNetwork_def getChainId_def chainIds_def)

text \<open>
  Claim C4, as the code has it. \<open>createEVMTransactionRequest\<close> never looks at the family
  of the network: it casts \<open>spec.network\<close> to \<open>EVMNetwork\<close> and reads the chain id
  from a table, which yields \<open>undefined\<close> for a network that is not in it; no
  \<open>UnsupportedNetwork\<close> error exists in the code. For a specification of a network
  outside the EVM family:
  \<^item> asset absent or the zero address: the request has \<open>to\<close> the recipient, \<open>value\<close>
    the amount string, no data, no gas field, and \<open>chainId\<close> undefined;
  \<^item> any other asset, amount read by \<open>BigInt\<close> as \<open>m\<close>: the request has \<open>to\<close> the asset
    address, no value, as data the selector followed by the padded recipient and the
    padded hexadecimal amount, no gas field, and \<open>chainId\<close> undefined;
  \<^item> any other asset, amount rejected by \<open>BigInt\<close>: the call throws a \<open>SyntaxError\<close>;
  \<^item> in every case the result is the result for the same specification on any other
    network \<open>n\<close>, with \<open>chainId\<close> set to undefined in a returned request.
\<close>

theorem createEVMTransactionRequest_non_EVM:
  assumes "\<not> isEVMNetwork (network s)"
  shows "(asset (price s) = None \<or> asset (price s) = Some \<lparr> address = zeroAddress \<rparr>
            \<longrightarrow> createEVMTransactionRequest s =
                  Inr \<lparr> tx_to = address (recipient s), tx_value = Some (amount (price s)),
                        tx_data = None, tx_gasLimit = None, tx_maxFeePerGas = None,
                        tx_maxPriorityFeePerGas = None, tx_chainId = None \<rparr>)
       \<and> (asset (price s) = Some a \<and> address a \<noteq> zeroAddress
            \<and> stringToBigInt (amount (price s)) = Some m
            \<longrightarrow> createEVMTransactionRequest s =
                  Inr \<lparr> tx_to = address a, tx_value = None,
                        tx_data = Some (''0xa9059cbb''
                          @ padStart 64 CHR ''0'' (drop 2 (address (recipient s)))
                          @ padStart 64 CHR ''0'' (toString16 m)),
                        tx_gasLimit = None, tx_maxFeePerGas = None,
                        tx_maxPriorityFeePerGas = None, tx_chainId = None \<rparr>)
       \<and> (asset (price s) = Some a \<and> address a \<noteq> zeroAddress
            \<and> stringToBigInt (amount (price s)) = None
            \<longrightarrow> createEVMTransactionRequest s = Inl SyntaxError)
       \<and> createEVMTransactionRequest s =
            map_sum id (\<lambda>r. r \<lparr> tx_chainId := None \<rparr>)
              (createEVMTransactionRequest (s \<lparr> network := n \<rparr>))"
proof (intro conjI impI)
  have c: "getChainId (network s) = None"
    using assms by (simp add: getChainId_None_iff)
  {
    assume "asset (price s) = None \<or> asset (price s) = Some \<lparr> address = zeroAddress \<rparr>"
    then have "isNativeToken s"
      by (simp add: isNativeToken_iff)
    then show "createEVMTransactionRequest s =
        Inr \<lparr> tx_to = address (recipient s), tx_value = Some (amount (price s)),
              tx_data = None, tx_gasLimit = None, tx_maxFeePerGas = None,
              tx_maxPriorityFeePerGas = None, tx_chainId = None \<rparr>"
      using c by (simp add: createEVM_native)
  }
  {
    assume h: "asset (price s) = Some a \<and> address a \<noteq> zeroAddress
        \<and> stringToBigInt (amount (price s)) = Some m"
    then have nn: "\<not> isNativeToken s" and p: "stringToBigInt (amount (price s)) = Some m"
      by (simp_all add: isNativeToken_def)
    show "createEVMTransactionRequest s =
        Inr \<lparr> tx_to = address a, tx_value = None,
              tx_data = Some (''0xa9059cbb''
                @ padStart 64 CHR ''0'' (drop 2 (address (recipient s)))
                @ padStart 64 CHR ''0'' (toString16 m)),
              tx_gasLimit = None, tx_maxFeePerGas = None,
              tx_maxPriorityFeePerGas = None, tx_chainId = None \<rparr>"
      unfolding createEVM_token[OF nn p] using h c by simp
  }
  {
    assume h: "asset (price s) = Some a \<and> address a \<noteq> zeroAddress
        \<and> stringToBigInt (amount (price s)) = None"
    then have nn: "\<not> isNativeToken s" and p: "stringToBigInt (amount (price s)) = None"
      by (simp_all add: isNativeToken_def)
    show "createEVMTransactionRequest s = Inl SyntaxError"
      using nn p by (rule createEVM_token_error)
  }
  have same: "isNativeToken (s \<lparr> network := n \<rparr>) = isNativeToken s"
    by (simp add: isNativeToken_def)
  show "createEVMTransactionRequest s =
      map_sum id (\<lambda>r. r \<lparr> tx_chainId := None \<rparr>)
        (createEVMTransactionRequest (s \<lparr> network := n \<rparr>))"
  proof (cases "isNativeToken s")
    case True
    then show ?thesis
      using c same by (simp add: createEVM_native)
  next
    case False
    then show ?thesis
      using c same
      by (simp add: createEVMTransactionRequest_def split: sum.split)
  qed
qed

theorem createEVMTransactionRequest_non_EVM_witness:
  "\<not> isEVMNetwork (network spec_solana_usdc)
   \<and> asset (price spec_solana_usdc) = Some \<lparr> address = ''EPjFWdd5AufqSSqeM2qN1xzybapC8G4wEGGkZwyTDt1v'' \<rparr>
   \<and> stringToBigInt (amount (price spec_solana_usdc)) = Some 1000000
   \<and> createEVMTransactionRequest spec_solana_usdc =
       Inr \<lparr> tx_to = ''EPjFWdd5AufqSSqeM2qN1xzybapC8G4wEGGkZwyTDt1v'', tx_value = None,
             tx_data = Some (''0xa9059cbb''
               @ ''0000000000000000000000KXtg2CW87d97TXJSDpbD5jBkheTqA83TZRuJosgAsU''
               @ ''00000000000000000000000000000000000000000000000000000000000f4240''),
             tx_gasLimit = None, tx_maxFeePerGas = None, tx_maxPriorityFeePerGas = None,
             tx_chainId = None \<rparr>
   \<and> createEVMTransactionRequest spec_solana_usdc =
       map_sum id (\<lambda>r. r \<lparr> tx_chainId := None \<rparr>)
         (createEVMTransactionRequest (spec_solana_usdc \<lparr> network := base_mainnet \<rparr>))
   \<and> \<not> isEVMNetwork (network spec_solana_native)
   \<and> asset (price spec_solana_native) = None
   \<and> createEVMTransactionRequest spec_solana_native =
       Inr \<lparr> tx_to = ''7xKXtg2CW87d97TXJSDpbD5jBkheTqA83TZRuJosgAsU'',
             tx_value = Some ''10000000'', tx_data = None, tx_gasLimit = None,
             tx_maxFeePerGas = None, tx_maxPriorityFeePerGas = None, tx_chainId = None \<rparr>"
proof -
  let ?mint = "\<lparr> address = ''EPjFWdd5AufqSSqeM2qN1xzybapC8G4wEGGkZwyTDt1v'' \<rparr>"
  have n: "\<not> isEVMNetwork (network spec_solana_usdc)"
    and n': "\<not> isEVMNetwork (network spec_solana_native)"
    by (simp_all add: spec_solana_usdc_def spec_solana_native_def isEVMNetwork_def)
  have a: "asset (price spec_solana_usdc) = Some ?mint"
    and a': "asset (price spec_solana_native) = None"
    by (simp_all add: spec_solana_usdc_def spec_solana_native_def)
  have z: "address ?mint \<noteq> zeroAddress"
    by (simp add: zeroAddress_def)
  have f: "address (recipient spec_solana_usdc) = ''7xKXtg2CW87d97TXJSDpbD5jBkheTqA83TZRuJosgAsU''"
    "address (recipient spec_solana_native) = ''7xKXtg2CW87d97TXJSDpbD5jBkheTqA83TZRuJosgAsU''"
    "amount (price spec_solana_native) = ''10000000''"
    by (simp_all add: spec_solana_usdc_def spec_solana_native_def)
  have pad: "padStart 64 CHR ''0'' (drop 2 ''7xKXtg2CW87d97TXJSDpbD5jBkheTqA83TZRuJosgAsU'')
      = ''0000000000000000000000KXtg2CW87d97TXJSDpbD5jBkheTqA83TZRuJosgAsU''"
    by code_simp
  note t = createEVMTransactionRequest_non_EVM [OF n, of ?mint 1000000 base_mainnet]
  note t' = createEVMTransactionRequest_non_EVM [OF n']
  have c1: "createEVMTransactionRequest spec_solana_usdc =
       Inr \<lparr> tx_to = ''EPjFWdd5AufqSSqeM2qN1xzybapC8G4wEGGkZwyTDt1v'', tx_value = None,
             tx_data = Some (''0xa9059cbb''
               @ ''0000000000000000000000KXtg2CW87d97TXJSDpbD5jBkheTqA83TZRuJosgAsU''
               @ ''00000000000000000000000000000000000000000000000000000000000f4240''),
             tx_gasLimit = None, tx_maxFeePerGas = None, tx_maxPriorityFeePerGas = None,
             tx_chainId = None \<rparr>"
    using t a z sample_amounts(3) unfolding f pad sample_hex(1) by simp
  have c2: "createEVMTransactionRequest spec_solana_usdc =
       map_sum id (\<lambda>r. r \<lparr> tx_chainId := None \<rparr>)
         (createEVMTransactionRequest (spec_solana_usdc \<lparr> network := base_mainnet \<rparr>))"
    using t by blast
  have c3: "createEVMTransactionRequest spec_solana_native =
       Inr \<lparr> tx_to = ''7xKXtg2CW87d97TXJSDpbD5jBkheTqA83TZRuJosgAsU'',
             tx_value = Some ''10000000'', tx_data = None, tx_gasLimit = None,
             tx_maxFeePerGas = None, tx_maxPriorityFeePerGas = None, tx_chainId = None \<rparr>"
    using t' a' unfolding f by blast
  show ?thesis
    using n n' a a' sample_amounts(3) c1 c2 c3 by (simp only: simp_thms)
qed

text \<open>
  Claim C10. A request returned by \<open>createEVMTransactionRequest\<close> has exactly one of
  \<open>value\<close> and \<open>data\<close> set: \<open>value\<close> and no \<open>data\<close> when the asset is absent or the
  zero address, \<open>data\<close> and no \<open>value\<close> otherwise; \<open>gasLimit\<close>, \<open>maxFeePerGas\<close> and
  \<open>maxPriorityFeePerGas\<close> are never set.
\<close>

theorem createEVMTransactionRequest_value_xor_data:
  assumes "createEVMTransactionRequest s = Inr r"
  shows "(asset (price s) = None \<or> asset (price s) = Some \<lparr> address = zeroAddress \<rparr>
            \<longrightarrow> tx_value r \<noteq> None \<and> tx_data r = None)
       \<and> (\<not> (asset (price s) = None \<or> asset (price s) = Some \<lparr> address = zeroAddress \<rparr>)
            \<longrightarrow> tx_data r \<noteq> None \<and> tx_value r = None)
       \<and> (tx_value r = None) \<noteq> (tx_data r = None)
       \<and> tx_gasLimit r = None \<and> tx_maxFeePerGas r = None \<and> tx_maxPriorityFeePerGas r = None"
proof (cases "isNativeToken s")
  case True
  then show ?thesis
    using assms by (auto simp add: createEVM_native isNativeToken_iff [symmetric])
next
  case False
  show ?thesis
  proof (cases "stringToBigInt (amount (price s))")
    case None
    then show ?thesis
      using assms False by (simp add: createEVM_token_error)
  next
    case (Some n)
    show ?thesis
      using assms False unfolding createEVM_token [OF False Some]
      by (auto simp add: isNativeToken_iff [symmetric])
  qed
qed

theorem createEVMTransactionRequest_value_xor_data_witness:
  "createEVMTransactionRequest spec_base_native =
     Inr \<lparr> tx_to = ''0x8ba1f109551bD432803012645Ac136ddd64DBA72'',
           tx_value = Some ''10000000000000000'', tx_data = None, tx_gasLimit = None,
           tx_maxFeePerGas = None, tx_maxPriorityFeePerGas = None, tx_chainId = Some 8453 \<rparr>
   \<and> asset (price spec_base_native) = None
   \<and> createEVMTransactionRequest spec_base_usdc =
     Inr \<lparr> tx_to = ''0x833589fCD6eDb6E08f4c7C32D4f71b54bdA02913'',
           tx_value = None,
           tx_data = Some (''0xa9059cbb''
             @ ''0000000000000000000000008ba1f109551bD432803012645Ac136ddd64DBA72''
             @ ''00000000000000000000000000000000000000000000000000000000000f4240''),
           tx_gasLimit = None, tx_maxFeePerGas = None, tx_maxPriorityFeePerGas = None,
           tx_chainId = Some 8453 \<rparr>
   \<and> asset (price spec_base_usdc) = Some \<lparr> address = ''0x833589fCD6eDb6E08f4c7C32D4f71b54bdA02913'' \<rparr>"
proof -
  have "asset (price spec_base_native) = None"
    "asset (price spec_base_usdc) = Some \<lparr> address = ''0x833589fCD6eDb6E08f4c7C32D4f71b54bdA02913'' \<rparr>"
    by (simp_all add: spec_base_native_def spec_base_usdc_def)
  then show ?thesis
    using createEVMTransactionRequest_value_xor_data [OF createEVM_spec_base_native]
      createEVMTransactionRequest_value_xor_data [OF createEVM_spec_base_usdc]
      createEVM_spec_base_native createEVM_spec_base_usdc
    by simp
qed

text \<open>
  Claim C6 does not hold as stated: the amount \<open>2 ^ 256\<close>, a non-negative decimal string,
  is written with 65 hexadecimal digits, so the data is one digit longer than a selector
  and two 32-byte words.
\<close>

theorem createEVMTransactionRequest_uint256_counterexample:
  "asset (price spec_base_usdc_huge) = Some \<lparr> address = ''0x833589fCD6eDb6E08f4c7C32D4f71b54bdA02913'' \<rparr>
   \<and> address (recipient spec_base_usdc_huge) = ''0x8ba1f109551bD432803012645Ac136ddd64DBA72''
   \<and> stringToBigInt (amount (price spec_base_usdc_huge)) = Some (2 ^ 256)
   \<and> createEVMTransactionRequest spec_base_usdc_huge =
       Inr \<lparr> tx_to = ''0x833589fCD6eDb6E08f4c7C32D4f71b54bdA02913'',
             tx_value = None,
             tx_data = Some (''0xa9059cbb''
               @ ''0000000000000000000000008ba1f109551bD432803012645Ac136ddd64DBA72''
               @ CHR ''1'' # replicate 64 CHR ''0''),
             tx_gasLimit = None, tx_maxFeePerGas = None, tx_maxPriorityFeePerGas = None,
             tx_chainId = Some 8453 \<rparr>
   \<and> length (CHR ''1'' # replicate 64 CHR ''0'') = 65"
proof -
  have pad: "padStart 64 CHR ''0'' (CHR ''1'' # replicate 64 CHR ''0'') = CHR ''1'' # replicate 64 CHR ''0''"
    by (simp add: padStart_def)
  have rest:
    "address (recipient spec_base_usdc_huge) = ''0x8ba1f109551bD432803012645Ac136ddd64DBA72''"
    "address (the (asset (price spec_base_usdc_huge))) = ''0x833589fCD6eDb6E08f4c7C32D4f71b54bdA02913''"
    "getChainId (network spec_base_usdc_huge) = Some 8453"
    by (simp_all add: spec_base_usdc_huge_def spec_base_usdc_def spec_base_native_def
        getChainId_def chainIds_def)
  have a: "asset (price spec_base_usdc_huge) = Some \<lparr> address = ''0x833589fCD6eDb6E08f4c7C32D4f71b54bdA02913'' \<rparr>"
    by (simp add: spec_base_usdc_huge_def spec_base_usdc_def)
  have r: "createEVMTransactionRequest spec_base_usdc_huge =
       Inr \<lparr> tx_to = ''0x833589fCD6eDb6E08f4c7C32D4f71b54bdA02913'',
             tx_value = None,
             tx_data = Some (''0xa9059cbb''
               @ ''0000000000000000000000008ba1f109551bD432803012645Ac136ddd64DBA72''
               @ CHR ''1'' # replicate 64 CHR ''0''),
             tx_gasLimit = None, tx_maxFeePerGas = None, tx_maxPriorityFeePerGas = None,
             tx_chainId = Some 8453 \<rparr>"
    unfolding createEVM_token[OF sample_native(3) sample_amounts(5)] toString16_2_256 pad rest sample_hex
    by (rule refl)
  have l: "length (CHR ''1'' # replicate 64 CHR ''0'') = 65"
    by simp
  show ?thesis
    using a rest(1) sample_amounts(5) r l by (simp only: simp_thms)
qed

text \<open>
  Claim C6, as the code has it. For a specification with a set asset other than the zero
  address, a recipient that is \<open>0x\<close> followed by 40 characters, and an amount that
  \<open>BigInt\<close> reads as a value from 0 to \<open>2 ^ 256 - 1\<close>, the request goes to the asset
  address and its data is the selector \<open>0xa9059cbb\<close>, then the 40 characters of the
  recipient after 24 zeros, then 64 lower-case hexadecimal digits whose value is the
  amount.
\<close>

theorem createEVMTransactionRequest_erc20_encoding:
  assumes "asset (price s) = Some a" and "address a \<noteq> zeroAddress"
    and "address (recipient s) = ''0x'' @ h" and "length h = 40"
    and "stringToBigInt (amount (price s)) = Some n" and "0 \<le> n" and "n < 2 ^ 256"
  shows "\<exists>pa. createEVMTransactionRequest s =
            Inr \<lparr> tx_to = address a, tx_value = None,
                  tx_data = Some (''0xa9059cbb'' @ replicate 24 CHR ''0'' @ h @ pa),
                  tx_gasLimit = None, tx_maxFeePerGas = None, tx_maxPriorityFeePerGas = None,
                  tx_chainId = getChainId (network s) \<rparr>
          \<and> length pa = 64
          \<and> set pa \<subseteq> set ''0123456789abcdef''
          \<and> parseDigits 16 pa = Some (nat n)"
proof -
  define pa where "pa = padStart 64 CHR ''0'' (hexNat (nat n))"
  have nn: "\<not> isNativeToken s"
    using assms(1,2) by (simp add: isNativeToken_def)
  have small: "nat n < 2 ^ 256"
    using assms(6,7) by (simp add: nat_less_iff)
  have addr: "padStart 64 CHR ''0'' (drop 2 (address (recipient s))) = replicate 24 CHR ''0'' @ h"
    using assms(3,4) by (simp add: padStart_def)
  have amt: "padStart 64 CHR ''0'' (toString16 n) = pa"
    using assms(6) by (simp add: toString16_def pa_def)
  have "createEVMTransactionRequest s =
      Inr \<lparr> tx_to = address a, tx_value = None,
            tx_data = Some (''0xa9059cbb'' @ replicate 24 CHR ''0'' @ h @ pa),
            tx_gasLimit = None, tx_maxFeePerGas = None, tx_maxPriorityFeePerGas = None,
            tx_chainId = getChainId (network s) \<rparr>"
    unfolding createEVM_token[OF nn assms(5)] addr amt
    using assms(1) by simp
  moreover have "length pa = 64" "set pa \<subseteq> set ''0123456789abcdef''"
    "parseDigits 16 pa = Some (nat n)"
    unfolding pa_def by (rule paddedAmount_ok[OF small])+
  ultimately show ?thesis
    by blast
qed

theorem createEVMTransactionRequest_erc20_encoding_witness:
  "asset (price spec_base_usdc) = Some \<lparr> address = ''0x833589fCD6eDb6E08f4c7C32D4f71b54bdA02913'' \<rparr>
   \<and> ''0x833589fCD6eDb6E08f4c7C32D4f71b54bdA02913'' \<noteq> zeroAddress
   \<and> address (recipient spec_base_usdc) = ''0x'' @ ''8ba1f109551bD432803012645Ac136ddd64DBA72''
   \<and> length ''8ba1f109551bD432803012645Ac136ddd64DBA72'' = 40
   \<and> stringToBigInt (amount (price spec_base_usdc)) = Some 1000000
   \<and> (\<exists>pa. createEVMTransactionRequest spec_base_usdc =
            Inr \<lparr> tx_to = ''0x833589fCD6eDb6E08f4c7C32D4f71b54bdA02913'', tx_value = None,
                  tx_data = Some (''0xa9059cbb'' @ replicate 24 CHR ''0''
                                  @ ''8ba1f109551bD432803012645Ac136ddd64DBA72'' @ pa),
                  tx_gasLimit = None, tx_maxFeePerGas = None, tx_maxPriorityFeePerGas = None,
                  tx_chainId = Some 8453 \<rparr>
          \<and> length pa = 64
          \<and> parseDigits 16 pa = Some 1000000)"
proof -
  let ?a = "\<lparr> address = ''0x833589fCD6eDb6E08f4c7C32D4f71b54bdA02913'' \<rparr>"
  let ?h = "''8ba1f109551bD432803012645Ac136ddd64DBA72''"
  have h1: "asset (price spec_base_usdc) = Some ?a"
    by (simp add: spec_base_usdc_def)
  have h2: "address ?a \<noteq> zeroAddress"
    by (simp add: zeroAddress_def)
  have h3: "address (recipient spec_base_usdc) = ''0x'' @ ?h"
    by (simp add: spec_base_usdc_def spec_base_native_def)
  have h4: "length ?h = 40"
    by simp
  have h5: "stringToBigInt (amount (price spec_base_usdc)) = Some 1000000"
    by (rule sample_amounts(1))
  have h6: "(0::int) \<le> 1000000" and h7: "(1000000::int) < 2 ^ 256"
    by simp_all
  have c: "getChainId (network spec_base_usdc) = Some 8453"
    by (simp add: spec_base_usdc_def spec_base_native_def getChainId_def chainIds_def)
  have n: "nat 1000000 = 1000000"
    by simp
  show ?thesis
    using createEVMTransactionRequest_erc20_encoding [OF h1 h2 h3 h4 h5 h6 h7] h1 h2 h3 h5
    unfolding c n by auto
qed


section \<open>Building Solana transaction requests\<close>

text \<open>
  Claim C8 does not hold as stated: \<open>setBigUint64\<close> stores its argument modulo
  \<open>2 ^ 64\<close>, so for the amount \<open>2 ^ 64\<close> the eight bytes after the discriminator are all
  zero and do not encode the amount.
\<close>

theorem createSolanaTransactionRequest_wrap_counterexample:
  "asset (price spec_solana_native_huge) = None
   \<and> stringToBigInt (amount (price spec_solana_native_huge)) = Some 18446744073709551616
   \<and> createSolanaTransactionRequest spec_solana_native_huge
        ''EkSnNWid2cvwEVnVx9aBqawnmiCNiDgp3gUdkDPTKN1N'' ''9WzDXwBbmkg8ZTbNMqUxvQRAyrZzDsGYdLVL9zYtAWWM'' =
      Inr \<lparr> recentBlockhash = ''EkSnNWid2cvwEVnVx9aBqawnmiCNiDgp3gUdkDPTKN1N'',
            feePayer = ''9WzDXwBbmkg8ZTbNMqUxvQRAyrZzDsGYdLVL9zYtAWWM'',
            instructions =
              [\<lparr> programId = ''11111111111111111111111111111111'',
                 keys = [\<lparr> pubkey = ''9WzDXwBbmkg8ZTbNMqUxvQRAyrZzDsGYdLVL9zYtAWWM'',
                           isSigner = True, isWritable = True \<rparr>,
                         \<lparr> pubkey = ''7xKXtg2CW87d97TXJSDpbD5jBkheTqA83TZRuJosgAsU'',
                           isSigner = False, isWritable = True \<rparr>],
                 data = [2, 0, 0, 0, 0, 0, 0, 0, 0, 0, 0, 0] \<rparr>],
            computeBudget = None \<rparr>
   \<and> le_value [0, 0, 0, 0, 0, 0, 0, 0] \<noteq> 18446744073709551616"
proof -
  have a: "stringToBigInt (amount (price spec_solana_native_huge)) = Some 18446744073709551616"
    by code_simp
  have b: "le_bytes 8 (nat (18446744073709551616 mod 2 ^ 64)) = [0, 0, 0, 0, 0, 0, 0, 0]"
    by code_simp
  have c: "asset (price spec_solana_native_huge) = None"
    by (simp add: spec_solana_native_huge_def spec_solana_native_def)
  have d: "address (recipient spec_solana_native_huge) = ''7xKXtg2CW87d97TXJSDpbD5jBkheTqA83TZRuJosgAsU''"
    by (simp add: spec_solana_native_huge_def spec_solana_native_def)
  have e: "le_value [0, 0, 0, 0, 0, 0, 0, 0] \<noteq> 18446744073709551616"
    by simp
  show ?thesis
    unfolding createSolana_native[OF sample_native(9) a] b d
    using a c e by simp
qed

text \<open>
  Claim C8, as the code has it. When \<open>BigInt\<close> rejects the amount,
  \<open>createSolanaTransactionRequest\<close> throws and emits nothing. When \<open>BigInt\<close> reads it as
  \<open>n\<close>: for a native specification (asset absent or \<open>native\<close>) the request has exactly one
  instruction, of the System Program, whose data is 12 bytes, the discriminator 2 in four
  little-endian bytes and then eight little-endian bytes of value \<open>n mod 2 ^ 64\<close>; for any
  other asset it has exactly one instruction, of the Token Program, whose data is 9 bytes,
  the byte 3 and then eight little-endian bytes of value \<open>n mod 2 ^ 64\<close>. The value is
  the amount itself exactly when the amount lies between 0 and \<open>2 ^ 64 - 1\<close>.
\<close>

theorem createSolanaTransactionRequest_encoding:
  "(stringToBigInt (amount (price s)) = None
      \<longrightarrow> createSolanaTransactionRequest s bh fp = Inl SyntaxError)
   \<and> (stringToBigInt (amount (price s)) = Some n
        \<and> (asset (price s) = None \<or> asset (price s) = Some \<lparr> address = ''native'' \<rparr>)
      \<longrightarrow> (\<exists>r i. createSolanaTransactionRequest s bh fp = Inr r
             \<and> instructions r = [i]
             \<and> programId i = ''11111111111111111111111111111111''
             \<and> length (data i) = 12
             \<and> (\<forall>b \<in> set (data i). b < 256)
             \<and> take 4 (data i) = [2, 0, 0, 0]
             \<and> int (le_value (drop 4 (data i))) = n mod 2 ^ 64))
   \<and> (stringToBigInt (amount (price s)) = Some n
        \<and> \<not> (asset (price s) = None \<or> asset (price s) = Some \<lparr> address = ''native'' \<rparr>)
      \<longrightarrow> (\<exists>r i. createSolanaTransactionRequest s bh fp = Inr r
             \<and> instructions r = [i]
             \<and> programId i = ''TokenkegQfeZyiNwAJbNbGKPFXCWuBvf9Ss623VQ5DA''
             \<and> length (data i) = 9
             \<and> (\<forall>b \<in> set (data i). b < 256)
             \<and> take 1 (data i) = [3]
             \<and> int (le_value (drop 1 (data i))) = n mod 2 ^ 64))"
proof (intro conjI impI)
  assume "stringToBigInt (amount (price s)) = None"
  then show "createSolanaTransactionRequest s bh fp = Inl SyntaxError"
    by (rule createSolana_error)
next
  assume "stringToBigInt (amount (price s)) = Some n
    \<and> (asset (price s) = None \<or> asset (price s) = Some \<lparr> address = ''native'' \<rparr>)"
  then have a: "stringToBigInt (amount (price s)) = Some n" and b: "isNativeSOL s"
    by (simp_all add: isNativeSOL_iff)
  have "\<forall>b \<in> set ([2, 0, 0, 0] @ le_bytes 8 (nat (n mod 2 ^ 64))). b < 256"
    using le_bytes_bound by auto
  then show "\<exists>r i. createSolanaTransactionRequest s bh fp = Inr r
             \<and> instructions r = [i]
             \<and> programId i = ''11111111111111111111111111111111''
             \<and> length (data i) = 12
             \<and> (\<forall>b \<in> set (data i). b < 256)
             \<and> take 4 (data i) = [2, 0, 0, 0]
             \<and> int (le_value (drop 4 (data i))) = n mod 2 ^ 64"
    unfolding createSolana_native[OF b a]
    by (simp add: length_le_bytes le_value_le_bytes_64_num)
next
  assume "stringToBigInt (amount (price s)) = Some n
    \<and> \<not> (asset (price s) = None \<or> asset (price s) = Some \<lparr> address = ''native'' \<rparr>)"
  then have a: "stringToBigInt (amount (price s)) = Some n" and b: "\<not> isNativeSOL s"
    by (simp_all add: isNativeSOL_iff)
  have "\<forall>b \<in> set ([3] @ le_bytes 8 (nat (n mod 2 ^ 64))). b < 256"
    using le_bytes_bound by auto
  then show "\<exists>r i. createSolanaTransactionRequest s bh fp = Inr r
             \<and> instructions r = [i]
             \<and> programId i = ''TokenkegQfeZyiNwAJbNbGKPFXCWuBvf9Ss623VQ5DA''
             \<and> length (data i) = 9
             \<and> (\<forall>b \<in> set (data i). b < 256)
             \<and> take 1 (data i) = [3]
             \<and> int (le_value (drop 1 (data i))) = n mod 2 ^ 64"
    unfolding createSolana_token[OF b a]
    by (simp add: length_le_bytes le_value_le_bytes_64_num)
qed

theorem createSolanaTransactionRequest_encoding_witness:
  "stringToBigInt (amount (price spec_solana_native)) = Some 10000000
   \<and> asset (price spec_solana_native) = None
   \<and> (\<exists>r i. createSolanaTransactionRequest spec_solana_native
               ''EkSnNWid2cvwEVnVx9aBqawnmiCNiDgp3gUdkDPTKN1N''
               ''9WzDXwBbmkg8ZTbNMqUxvQRAyrZzDsGYdLVL9zYtAWWM'' = Inr r
         \<and> instructions r = [i]
         \<and> data i = [2, 0, 0, 0, 128, 150, 152, 0, 0, 0, 0, 0]
         \<and> int (le_value (drop 4 (data i))) = 10000000)
   \<and> stringToBigInt (amount (price spec_solana_usdc)) = Some 1000000
   \<and> asset (price spec_solana_usdc) = Some \<lparr> address = ''EPjFWdd5AufqSSqeM2qN1xzybapC8G4wEGGkZwyTDt1v'' \<rparr>
   \<and> (\<exists>r i. createSolanaTransactionRequest spec_solana_usdc
               ''EkSnNWid2cvwEVnVx9aBqawnmiCNiDgp3gUdkDPTKN1N''
               ''9WzDXwBbmkg8ZTbNMqUxvQRAyrZzDsGYdLVL9zYtAWWM'' = Inr r
         \<and> instructions r = [i]
         \<and> data i = [3, 64, 66, 15, 0, 0, 0, 0, 0]
         \<and> int (le_value (drop 1 (data i))) = 1000000)
   \<and> stringToBigInt ''0.01'' = None
   \<and> createSolanaTransactionRequest (spec_solana_native \<lparr> price := (price spec_solana_native) \<lparr> amount := ''0.01'' \<rparr> \<rparr>)
        ''EkSnNWid2cvwEVnVx9aBqawnmiCNiDgp3gUdkDPTKN1N''
        ''9WzDXwBbmkg8ZTbNMqUxvQRAyrZzDsGYdLVL9zYtAWWM'' = Inl SyntaxError"
proof -
  let ?bh = "''EkSnNWid2cvwEVnVx9aBqawnmiCNiDgp3gUdkDPTKN1N''"
  let ?fp = "''9WzDXwBbmkg8ZTbNMqUxvQRAyrZzDsGYdLVL9zYtAWWM''"
  let ?bad = "spec_solana_native \<lparr> price := (price spec_solana_native) \<lparr> amount := ''0.01'' \<rparr> \<rparr>"
  have a1: "asset (price spec_solana_native) = None"
    and a2: "asset (price spec_solana_usdc) = Some \<lparr> address = ''EPjFWdd5AufqSSqeM2qN1xzybapC8G4wEGGkZwyTDt1v'' \<rparr>"
    by (simp_all add: spec_solana_native_def spec_solana_usdc_def)
  have bad: "stringToBigInt ''0.01'' = None"
    by code_simp
  then have bad': "stringToBigInt (amount (price ?bad)) = None"
    by simp
  have e: "createSolanaTransactionRequest ?bad ?bh ?fp = Inl SyntaxError"
    using createSolanaTransactionRequest_encoding [of ?bad ?bh ?fp] bad' by blast
  have n: "int (le_value (drop 4 [2, 0, 0, 0, 128, 150, 152, 0, 0, 0, 0, 0])) = 10000000"
    "int (le_value (drop 1 [3, 64, 66, 15, 0, 0, 0, 0, 0])) = 1000000"
    by simp_all
  show ?thesis
    using a1 a2 bad e n sample_amounts(2,3)
      createSolana_spec_solana_native createSolana_spec_solana_usdc
    by simp
qed


section \<open>Native transfers and token calls\<close>

text \<open>
  Claim C5 does not hold as stated: on Solana the zero address is not a marker of the
  native token. For the specification below, whose asset is the zero address,
  \<open>createSolanaTransactionRequest\<close> builds a Token Program instruction.
\<close>

theorem createSolanaTransactionRequest_zero_address_counterexample:
  "asset (price spec_solana_zero_asset) =
     Some \<lparr> address = ''0x0000000000000000000000000000000000000000'' \<rparr>
   \<and> createSolanaTransactionRequest spec_solana_zero_asset
        ''EkSnNWid2cvwEVnVx9aBqawnmiCNiDgp3gUdkDPTKN1N'' ''9WzDXwBbmkg8ZTbNMqUxvQRAyrZzDsGYdLVL9zYtAWWM'' =
      Inr \<lparr> recentBlockhash = ''EkSnNWid2cvwEVnVx9aBqawnmiCNiDgp3gUdkDPTKN1N'',
            feePayer = ''9WzDXwBbmkg8ZTbNMqUxvQRAyrZzDsGYdLVL9zYtAWWM'',
            instructions =
              [\<lparr> programId = ''TokenkegQfeZyiNwAJbNbGKPFXCWuBvf9Ss623VQ5DA'',
                 keys = [\<lparr> pubkey = ''9WzDXwBbmkg8ZTbNMqUxvQRAyrZzDsGYdLVL9zYtAWWM_0x0000000000000000000000000000000000000000_ata'',
                           isSigner = False, isWritable = True \<rparr>,
                         \<lparr> pubkey = ''0x0000000000000000000000000000000000000000'',
                           isSigner = False, isWritable = False \<rparr>,
                         \<lparr> pubkey = ''7xKXtg2CW87d97TXJSDpbD5jBkheTqA83TZRuJosgAsU_0x0000000000000000000000000000000000000000_ata'',
                           isSigner = False, isWritable = True \<rparr>,
                         \<lparr> pubkey = ''9WzDXwBbmkg8ZTbNMqUxvQRAyrZzDsGYdLVL9zYtAWWM'',
                           isSigner = True, isWritable = False \<rparr>],
                 data = [3, 128, 150, 152, 0, 0, 0, 0, 0] \<rparr>],
            computeBudget = None \<rparr>"
proof -
  have a: "asset (price spec_solana_zero_asset) =
      Some \<lparr> address = ''0x0000000000000000000000000000000000000000'' \<rparr>"
    "address (the (asset (price spec_solana_zero_asset))) = ''0x0000000000000000000000000000000000000000''"
    "address (recipient spec_solana_zero_asset) = ''7xKXtg2CW87d97TXJSDpbD5jBkheTqA83TZRuJosgAsU''"
    by (simp_all add: spec_solana_zero_asset_def spec_solana_native_def zeroAddress_def)
  show ?thesis
    unfolding createSolana_token[OF sample_native(8) sample_amounts(4)] sample_bytes a
    by simp
qed

text \<open>
  Claim C5, as the code has it. Each builder has its own marker of the native token: the
  zero address for EVM, the asset address \<open>native\<close> for Solana.
  \<^item> EVM, asset absent or the zero address: a transfer of the amount string as \<open>value\<close> to
    the recipient, with no data.
  \<^item> EVM, any other asset, amount accepted by \<open>BigInt\<close>: a call to the asset address
    that carries data and no value.
  \<^item> Solana, asset absent or \<open>native\<close>, amount read by \<open>BigInt\<close> as a value from 0 to
    \<open>2 ^ 64 - 1\<close>: one System Program instruction from the fee payer to the recipient
    whose data encodes exactly the amount.
  \<^item> Solana, any other asset, amount accepted by \<open>BigInt\<close>: one Token Program instruction
    whose destination is the associated token account of the recipient.
\<close>

theorem native_or_token_transfer:
  "(asset (price s) = None \<or> asset (price s) = Some \<lparr> address = zeroAddress \<rparr>
      \<longrightarrow> createEVMTransactionRequest s =
            Inr \<lparr> tx_to = address (recipient s), tx_value = Some (amount (price s)),
                  tx_data = None, tx_gasLimit = None, tx_maxFeePerGas = None,
                  tx_maxPriorityFeePerGas = None, tx_chainId = getChainId (network s) \<rparr>)
   \<and> (asset (price s) = Some a \<and> address a \<noteq> zeroAddress
        \<and> stringToBigInt (amount (price s)) = Some n
      \<longrightarrow> (\<exists>d. createEVMTransactionRequest s =
            Inr \<lparr> tx_to = address a, tx_value = None, tx_data = Some d, tx_gasLimit = None,
                  tx_maxFeePerGas = None, tx_maxPriorityFeePerGas = None,
                  tx_chainId = getChainId (network s) \<rparr>))
   \<and> ((asset (price s) = None \<or> asset (price s) = Some \<lparr> address = ''native'' \<rparr>)
        \<and> stringToBigInt (amount (price s)) = Some n \<and> 0 \<le> n \<and> n < 2 ^ 64
      \<longrightarrow> (\<exists>d. createSolanaTransactionRequest s blockhash payer =
            Inr \<lparr> recentBlockhash = blockhash, feePayer = payer,
                  instructions =
                    [\<lparr> programId = ''11111111111111111111111111111111'',
                       keys = [\<lparr> pubkey = payer, isSigner = True, isWritable = True \<rparr>,
                               \<lparr> pubkey = address (recipient s), isSigner = False,
                                 isWritable = True \<rparr>],
                       data = d \<rparr>],
                  computeBudget = None \<rparr>
            \<and> take 4 d = [2, 0, 0, 0] \<and> int (le_value (drop 4 d)) = n))
   \<and> (asset (price s) = Some a \<and> address a \<noteq> ''native''
        \<and> stringToBigInt (amount (price s)) = Some n
      \<longrightarrow> (\<exists>d. createSolanaTransactionRequest s blockhash payer =
            Inr \<lparr> recentBlockhash = blockhash, feePayer = payer,
                  instructions =
                    [\<lparr> programId = ''TokenkegQfeZyiNwAJbNbGKPFXCWuBvf9Ss623VQ5DA'',
                       keys = [\<lparr> pubkey = getAssociatedTokenAddress payer (address a),
                                 isSigner = False, isWritable = True \<rparr>,
                               \<lparr> pubkey = address a, isSigner = False, isWritable = False \<rparr>,
                               \<lparr> pubkey = getAssociatedTokenAddress (address (recipient s)) (address a),
                                 isSigner = False, isWritable = True \<rparr>,
                               \<lparr> pubkey = payer, isSigner = True, isWritable = False \<rparr>],
                       data = d \<rparr>],
                  computeBudget = None \<rparr>))"
proof (intro conjI impI)
  assume "asset (price s) = None \<or> asset (price s) = Some \<lparr> address = zeroAddress \<rparr>"
  then have "isNativeToken s"
    by (simp add: isNativeToken_iff)
  then show "createEVMTransactionRequest s =
            Inr \<lparr> tx_to = address (recipient s), tx_value = Some (amount (price s)),
                  tx_data = None, tx_gasLimit = None, tx_maxFeePerGas = None,
                  tx_maxPriorityFeePerGas = None, tx_chainId = getChainId (network s) \<rparr>"
    by (rule createEVM_native)
next
  assume h: "asset (price s) = Some a \<and> address a \<noteq> zeroAddress
        \<and> stringToBigInt (amount (price s)) = Some n"
  then have nn: "\<not> isNativeToken s" and p: "stringToBigInt (amount (price s)) = Some n"
    by (simp_all add: isNativeToken_def)
  show "\<exists>d. createEVMTransactionRequest s =
            Inr \<lparr> tx_to = address a, tx_value = None, tx_data = Some d, tx_gasLimit = None,
                  tx_maxFeePerGas = None, tx_maxPriorityFeePerGas = None,
                  tx_chainId = getChainId (network s) \<rparr>"
    unfolding createEVM_token[OF nn p] using h by simp
next
  assume h: "(asset (price s) = None \<or> asset (price s) = Some \<lparr> address = ''native'' \<rparr>)
        \<and> stringToBigInt (amount (price s)) = Some n \<and> 0 \<le> n \<and> n < 2 ^ 64"
  then have nat: "isNativeSOL s" and p: "stringToBigInt (amount (price s)) = Some n"
    by (simp_all add: isNativeSOL_iff)
  have m: "n mod 2 ^ 64 = n"
    using h by simp
  have "int (le_value (le_bytes 8 (nat (n mod 2 ^ 64)))) = n"
    unfolding le_value_le_bytes_64 by (rule m)
  then show "\<exists>d. createSolanaTransactionRequest s blockhash payer =
            Inr \<lparr> recentBlockhash = blockhash, feePayer = payer,
                  instructions =
                    [\<lparr> programId = ''11111111111111111111111111111111'',
                       keys = [\<lparr> pubkey = payer, isSigner = True, isWritable = True \<rparr>,
                               \<lparr> pubkey = address (recipient s), isSigner = False,
                                 isWritable = True \<rparr>],
                       data = d \<rparr>],
                  computeBudget = None \<rparr>
            \<and> take 4 d = [2, 0, 0, 0] \<and> int (le_value (drop 4 d)) = n"
    unfolding createSolana_native[OF nat p] by simp
next
  assume h: "asset (price s) = Some a \<and> address a \<noteq> ''native''
        \<and> stringToBigInt (amount (price s)) = Some n"
  then have nn: "\<not> isNativeSOL s" and p: "stringToBigInt (amount (price s)) = Some n"
    by (simp_all add: isNativeSOL_def)
  show "\<exists>d. createSolanaTransactionRequest s blockhash payer =
            Inr \<lparr> recentBlockhash = blockhash, feePayer = payer,
                  instructions =
                    [\<lparr> programId = ''TokenkegQfeZyiNwAJbNbGKPFXCWuBvf9Ss623VQ5DA'',
                       keys = [\<lparr> pubkey = getAssociatedTokenAddress payer (address a),
                                 isSigner = False, isWritable = True \<rparr>,
                               \<lparr> pubkey = address a, isSigner = False, isWritable = False \<rparr>,
                               \<lparr> pubkey = getAssociatedTokenAddress (address (recipient s)) (address a),
                                 isSigner = False, isWritable = True \<rparr>,
                               \<lparr> pubkey = payer, isSigner = True, isWritable = False \<rparr>],
                       data = d \<rparr>],
                  computeBudget = None \<rparr>"
    unfolding createSolana_token[OF nn p] using h by (simp add: getAssociatedTokenAddress_def)
qed

theorem native_or_token_transfer_witness:
  "asset (price spec_base_native) = None
   \<and> createEVMTransactionRequest spec_base_native =
       Inr \<lparr> tx_to = ''0x8ba1f109551bD432803012645Ac136ddd64DBA72'',
             tx_value = Some ''10000000000000000'', tx_data = None, tx_gasLimit = None,
             tx_maxFeePerGas = None, tx_maxPriorityFeePerGas = None, tx_chainId = Some 8453 \<rparr>
   \<and> asset (price spec_base_usdc) = Some \<lparr> address = ''0x833589fCD6eDb6E08f4c7C32D4f71b54bdA02913'' \<rparr>
   \<and> stringToBigInt (amount (price spec_base_usdc)) = Some 1000000
   \<and> (\<exists>d. createEVMTransactionRequest spec_base_usdc =
         Inr \<lparr> tx_to = ''0x833589fCD6eDb6E08f4c7C32D4f71b54bdA02913'', tx_value = None,
               tx_data = Some d, tx_gasLimit = None, tx_maxFeePerGas = None,
               tx_maxPriorityFeePerGas = None, tx_chainId = Some 8453 \<rparr>)
   \<and> asset (price spec_solana_native) = None
   \<and> stringToBigInt (amount (price spec_solana_native)) = Some 10000000
   \<and> (\<exists>d. createSolanaTransactionRequest spec_solana_native
              ''EkSnNWid2cvwEVnVx9aBqawnmiCNiDgp3gUdkDPTKN1N''
              ''9WzDXwBbmkg8ZTbNMqUxvQRAyrZzDsGYdLVL9zYtAWWM'' =
         Inr \<lparr> recentBlockhash = ''EkSnNWid2cvwEVnVx9aBqawnmiCNiDgp3gUdkDPTKN1N'',
               feePayer = ''9WzDXwBbmkg8ZTbNMqUxvQRAyrZzDsGYdLVL9zYtAWWM'',
               instructions =
                 [\<lparr> programId = ''11111111111111111111111111111111'',
                    keys = [\<lparr> pubkey = ''9WzDXwBbmkg8ZTbNMqUxvQRAyrZzDsGYdLVL9zYtAWWM'',
                              isSigner = True, isWritable = True \<rparr>,
                            \<lparr> pubkey = ''7xKXtg2CW87d97TXJSDpbD5jBkheTqA83TZRuJosgAsU'',
                              isSigner = False, isWritable = True \<rparr>],
                    data = d \<rparr>],
               computeBudget = None \<rparr>
         \<and> int (le_value (drop 4 d)) = 10000000)
   \<and> asset (price spec_solana_usdc) = Some \<lparr> address = ''EPjFWdd5AufqSSqeM2qN1xzybapC8G4wEGGkZwyTDt1v'' \<rparr>
   \<and> stringToBigInt (amount (price spec_solana_usdc)) = Some 1000000
   \<and> (\<exists>r i. createSolanaTransactionRequest spec_solana_usdc
              ''EkSnNWid2cvwEVnVx9aBqawnmiCNiDgp3gUdkDPTKN1N''
              ''9WzDXwBbmkg8ZTbNMqUxvQRAyrZzDsGYdLVL9zYtAWWM'' = Inr r
         \<and> instructions r = [i]
         \<and> programId i = ''TokenkegQfeZyiNwAJbNbGKPFXCWuBvf9Ss623VQ5DA''
         \<and> pubkey (keys i ! 2) =
             ''7xKXtg2CW87d97TXJSDpbD5jBkheTqA83TZRuJosgAsU_EPjFWdd5AufqSSqeM2qN1xzybapC8G4wEGGkZwyTDt1v_ata'')"
proof -
  let ?bh = "''EkSnNWid2cvwEVnVx9aBqawnmiCNiDgp3gUdkDPTKN1N''"
  let ?fp = "''9WzDXwBbmkg8ZTbNMqUxvQRAyrZzDsGYdLVL9zYtAWWM''"
  let ?usdc = "\<lparr> address = ''0x833589fCD6eDb6E08f4c7C32D4f71b54bdA02913'' \<rparr>"
  let ?mint = "\<lparr> address = ''EPjFWdd5AufqSSqeM2qN1xzybapC8G4wEGGkZwyTDt1v'' \<rparr>"
  have a: "asset (price spec_base_native) = None"
    "asset (price spec_base_usdc) = Some ?usdc"
    "asset (price spec_solana_native) = None"
    "asset (price spec_solana_usdc) = Some ?mint"
    by (simp_all add: spec_base_native_def spec_base_usdc_def spec_solana_native_def
        spec_solana_usdc_def)
  have f: "address (recipient spec_base_native) = ''0x8ba1f109551bD432803012645Ac136ddd64DBA72''"
    "amount (price spec_base_native) = ''10000000000000000''"
    "getChainId (network spec_base_native) = Some 8453"
    "getChainId (network spec_base_usdc) = Some 8453"
    "address (recipient spec_solana_native) = ''7xKXtg2CW87d97TXJSDpbD5jBkheTqA83TZRuJosgAsU''"
    "address (recipient spec_solana_usdc) = ''7xKXtg2CW87d97TXJSDpbD5jBkheTqA83TZRuJosgAsU''"
    by (simp_all add: spec_base_native_def spec_base_usdc_def spec_solana_native_def
        spec_solana_usdc_def getChainId_def chainIds_def)
  have z: "address ?usdc \<noteq> zeroAddress" "address ?mint \<noteq> ''native''"
    by (simp_all add: zeroAddress_def)
  have b: "(0::int) \<le> 10000000" "(10000000::int) < 2 ^ 64"
    by simp_all
  note t = native_or_token_transfer
  have c1: "createEVMTransactionRequest spec_base_native =
       Inr \<lparr> tx_to = ''0x8ba1f109551bD432803012645Ac136ddd64DBA72'',
             tx_value = Some ''10000000000000000'', tx_data = None, tx_gasLimit = None,
             tx_maxFeePerGas = None, tx_maxPriorityFeePerGas = None, tx_chainId = Some 8453 \<rparr>"
    using t [of spec_base_native] a(1) unfolding f by blast
  have c2: "\<exists>d. createEVMTransactionRequest spec_base_usdc =
         Inr \<lparr> tx_to = ''0x833589fCD6eDb6E08f4c7C32D4f71b54bdA02913'', tx_value = None,
               tx_data = Some d, tx_gasLimit = None, tx_maxFeePerGas = None,
               tx_maxPriorityFeePerGas = None, tx_chainId = Some 8453 \<rparr>"
    using t [of spec_base_usdc ?usdc 1000000] a(2) z(1) sample_amounts(1) unfolding f by simp
  have c3: "\<exists>d. createSolanaTransactionRequest spec_solana_native ?bh ?fp =
         Inr \<lparr> recentBlockhash = ?bh, feePayer = ?fp,
               instructions =
                 [\<lparr> programId = ''11111111111111111111111111111111'',
                    keys = [\<lparr> pubkey = ?fp, isSigner = True, isWritable = True \<rparr>,
                            \<lparr> pubkey = ''7xKXtg2CW87d97TXJSDpbD5jBkheTqA83TZRuJosgAsU'',
                              isSigner = False, isWritable = True \<rparr>],
                    data = d \<rparr>],
               computeBudget = None \<rparr>
         \<and> int (le_value (drop 4 d)) = 10000000"
    using t [of spec_solana_native _ 10000000 ?bh ?fp] a(3) b sample_amounts(2) unfolding f
    by blast
  have c4: "\<exists>r i. createSolanaTransactionRequest spec_solana_usdc ?bh ?fp = Inr r
         \<and> instructions r = [i]
         \<and> programId i = ''TokenkegQfeZyiNwAJbNbGKPFXCWuBvf9Ss623VQ5DA''
         \<and> pubkey (keys i ! 2) =
             ''7xKXtg2CW87d97TXJSDpbD5jBkheTqA83TZRuJosgAsU_EPjFWdd5AufqSSqeM2qN1xzybapC8G4wEGGkZwyTDt1v_ata''"
    using t [of spec_solana_usdc ?mint 1000000 ?bh ?fp] a(4) z(2) sample_amounts(3) unfolding f
    by (auto simp add: getAssociatedTokenAddress_def)
  show ?thesis
    using a sample_amounts(1,2,3) c1 c2 c3 c4 by (simp only: simp_thms)
qed


section \<open>Determinism of transaction building\<close>

text \<open>
  Claim C7. Both builders are functions of their arguments alone, and of few of them:
  \<open>createEVMTransactionRequest\<close> gives the same result (request or error) on any two
  specifications with the same network, amount, asset and recipient, and
  \<open>createSolanaTransactionRequest\<close> on any two specifications with the same amount, asset
  and recipient, given the same blockhash and fee payer. Two calls with the same
  specification are the special case where the two specifications are one.
\<close>

theorem transaction_building_deterministic:
  "(network s = network s' \<and> amount (price s) = amount (price s')
      \<and> asset (price s) = asset (price s') \<and> address (recipient s) = address (recipient s')
      \<longrightarrow> createEVMTransactionRequest s = createEVMTransactionRequest s')
   \<and> (amount (price t) = amount (price t')
      \<and> asset (price t) = asset (price t') \<and> address (recipient t) = address (recipient t')
      \<longrightarrow> createSolanaTransactionRequest t blockhash payer
          = createSolanaTransactionRequest t' blockhash payer)"
proof (intro conjI impI)
  assume h: "network s = network s' \<and> amount (price s) = amount (price s')
      \<and> asset (price s) = asset (price s') \<and> address (recipient s) = address (recipient s')"
  then have e: "network s = network s'" "amount (price s) = amount (price s')"
    "asset (price s) = asset (price s')" "address (recipient s) = address (recipient s')"
    by simp_all
  have n: "isNativeToken s = isNativeToken s'"
    using e by (simp add: isNativeToken_def)
  show "createEVMTransactionRequest s = createEVMTransactionRequest s'"
    unfolding createEVMTransactionRequest_def n e by (rule refl)
next
  assume h: "amount (price t) = amount (price t')
      \<and> asset (price t) = asset (price t') \<and> address (recipient t) = address (recipient t')"
  then have e: "amount (price t) = amount (price t')"
    "asset (price t) = asset (price t')" "address (recipient t) = address (recipient t')"
    by simp_all
  have n: "isNativeSOL t = isNativeSOL t'"
    using e by (simp add: isNativeSOL_def)
  show "createSolanaTransactionRequest t blockhash payer
      = createSolanaTransactionRequest t' blockhash payer"
    unfolding createSolanaTransactionRequest_def n e by (rule refl)
qed

theorem transaction_building_deterministic_witness:
  "scheme spec_base_usdc \<noteq> scheme spec_base_usdc_relabelled
   \<and> resource spec_base_usdc \<noteq> resource spec_base_usdc_relabelled
   \<and> metadata spec_base_usdc \<noteq> metadata spec_base_usdc_relabelled
   \<and> createEVMTransactionRequest spec_base_usdc_relabelled =
       Inr \<lparr> tx_to = ''0x833589fCD6eDb6E08f4c7C32D4f71b54bdA02913'',
             tx_value = None,
             tx_data = Some (''0xa9059cbb''
               @ ''0000000000000000000000008ba1f109551bD432803012645Ac136ddd64DBA72''
               @ ''00000000000000000000000000000000000000000000000000000000000f4240''),
             tx_gasLimit = None, tx_maxFeePerGas = None, tx_maxPriorityFeePerGas = None,
             tx_chainId = Some 8453 \<rparr>
   \<and> createEVMTransactionRequest spec_base_usdc = createEVMTransactionRequest spec_base_usdc
   \<and> network spec_solana_usdc \<noteq> network spec_solana_usdc_relabelled
   \<and> createSolanaTransactionRequest spec_solana_usdc_relabelled
        ''EkSnNWid2cvwEVnVx9aBqawnmiCNiDgp3gUdkDPTKN1N'' ''9WzDXwBbmkg8ZTbNMqUxvQRAyrZzDsGYdLVL9zYtAWWM''
     = createSolanaTransactionRequest spec_solana_usdc
        ''EkSnNWid2cvwEVnVx9aBqawnmiCNiDgp3gUdkDPTKN1N'' ''9WzDXwBbmkg8ZTbNMqUxvQRAyrZzDsGYdLVL9zYtAWWM''
   \<and> (\<exists>r. createSolanaTransactionRequest spec_solana_usdc
        ''EkSnNWid2cvwEVnVx9aBqawnmiCNiDgp3gUdkDPTKN1N'' ''9WzDXwBbmkg8ZTbNMqUxvQRAyrZzDsGYdLVL9zYtAWWM''
        = Inr r)"
proof -
  let ?bh = "''EkSnNWid2cvwEVnVx9aBqawnmiCNiDgp3gUdkDPTKN1N''"
  let ?fp = "''9WzDXwBbmkg8ZTbNMqUxvQRAyrZzDsGYdLVL9zYtAWWM''"
  have same_evm:
    "network spec_base_usdc_relabelled = network spec_base_usdc
     \<and> amount (price spec_base_usdc_relabelled) = amount (price spec_base_usdc)
     \<and> asset (price spec_base_usdc_relabelled) = asset (price spec_base_usdc)
     \<and> address (recipient spec_base_usdc_relabelled) = address (recipient spec_base_usdc)"
    by (simp add: spec_base_usdc_relabelled_def)
  have same_sol:
    "amount (price spec_solana_usdc_relabelled) = amount (price spec_solana_usdc)
     \<and> asset (price spec_solana_usdc_relabelled) = asset (price spec_solana_usdc)
     \<and> address (recipient spec_solana_usdc_relabelled) = address (recipient spec_solana_usdc)"
    by (simp add: spec_solana_usdc_relabelled_def)
  have e1: "createEVMTransactionRequest spec_base_usdc_relabelled
      = createEVMTransactionRequest spec_base_usdc"
    using transaction_building_deterministic
      [of spec_base_usdc_relabelled spec_base_usdc] same_evm by blast
  have e2: "createEVMTransactionRequest spec_base_usdc = createEVMTransactionRequest spec_base_usdc"
    using transaction_building_deterministic [of spec_base_usdc spec_base_usdc] by blast
  have e3: "createSolanaTransactionRequest spec_solana_usdc_relabelled ?bh ?fp
      = createSolanaTransactionRequest spec_solana_usdc ?bh ?fp"
    using transaction_building_deterministic
      [of _ _ spec_solana_usdc_relabelled spec_solana_usdc ?bh ?fp] same_sol by blast
  have d: "scheme spec_base_usdc \<noteq> scheme spec_base_usdc_relabelled"
    "resource spec_base_usdc \<noteq> resource spec_base_usdc_relabelled"
    "metadata spec_base_usdc \<noteq> metadata spec_base_usdc_relabelled"
    "network spec_solana_usdc \<noteq> network spec_solana_usdc_relabelled"
    by (simp_all add: spec_base_usdc_relabelled_def spec_solana_usdc_relabelled_def
        spec_base_usdc_def spec_base_native_def spec_solana_usdc_def spec_solana_native_def)
  show ?thesis
    using d e1 e2 e3 createEVM_spec_base_usdc createSolana_spec_solana_usdc
    by simp
qed

end
